theory Spec2Isabelle
  imports Main "HOL-Library.Word"
begin

section \<open>Data model of \<^verbatim>\<open>internal/api/msg.go\<close>\<close>

type_synonym int32 = "32 word"
type_synonym int64 = "64 word"

text \<open>
  Errors are values. \<open>ErrArgs\<close> and \<open>ErrNoPermission\<close> are the two sentinels of package
  \<^verbatim>\<open>errs\<close> the file uses; \<open>Failure\<close> is any error value handed back by a collaborator or a
  library, named by its text. \<open>WithDetail e d\<close> is \<^verbatim>\<open>e.WithDetail(d).Wrap()\<close>, \<open>WrapMsg e m\<close> is
  \<^verbatim>\<open>e.WrapMsg(m)\<close> and \<^verbatim>\<open>errs.WrapMsg(e, m, ...)\<close> (the key/value pairs attached for
  logging are not kept), \<open>Wrap e\<close> is \<^verbatim>\<open>errs.Wrap(e)\<close>.
\<close>

datatype error =
    ErrArgs
  | ErrNoPermission
  | Failure string
  | WithDetail error string
  | WrapMsg error string
  | Wrap error

text \<open>JSON values: the type of the entries of a \<^verbatim>\<open>map[string]any\<close> message content.\<close>

datatype json =
    JNull
  | JBool bool
  | JNumber int
  | JString string
  | JArray "json list"
  | JObject "(string \<times> json) list"

text \<open>
  What the file hands to the JSON serialisers \<^verbatim>\<open>jsonutil.StructToJsonString\<close> and
  \<^verbatim>\<open>jsonutil.JsonMarshal\<close>: the caller's content map, a \<^verbatim>\<open>sdkws.NotificationElem{Detail}\<close>,
  the anonymous \<^verbatim>\<open>struct{Key, Data}\<close> of a business notification, and an
  \<^verbatim>\<open>apistruct.MarkdownTextElem{Content}\<close>.
\<close>

datatype any =
    MapContent "(string \<times> json) list"
  | NotificationElem string
  | KeyData string string
  | MarkdownTextContent string

text \<open>
  The typed containers of \<^verbatim>\<open>getSendMsgReq\<close>. The file reads one field of a decoded container
  only, \<^verbatim>\<open>AtElem.AtUserList\<close>; everything else the decoder filled in is kept opaque in
  \<open>decoded\<close>.
\<close>

datatype elem =
    TextElem
  | PictureElem
  | SoundElem
  | VideoElem
  | FileElem
  | AtElem
  | CustomElem
  | MarkdownTextElem
  | OANotificationElem

record data =
  elem :: elem
  decoded :: "(string \<times> json) list"
  AtUserList :: "string list"

text \<open>\<^verbatim>\<open>sdkws.OfflinePushInfo\<close> is passed through by pointer and never inspected.\<close>

typedecl OfflinePushInfo

text \<open>
  \<^verbatim>\<open>sdkws.MsgData\<close>, the canonical envelope, with the fields this file assigns. Numeric fields
  left out of a struct literal are Go's zero value, strings are empty, slices and maps nil.
  \<open>Content\<close> is a byte slice; a \<open>string\<close> is a list of bytes.
\<close>

record MsgData =
  SendID :: string
  RecvID :: string
  GroupID :: string
  ClientMsgID :: string
  SenderPlatformID :: int32
  SenderNickname :: string
  SenderFaceURL :: string
  SessionType :: int32
  MsgFrom :: int32
  ContentType :: int32
  Content :: string
  CreateTime :: int64
  SendTime :: int64
  Options :: "string \<rightharpoonup> bool"
  OfflinePushInfo :: "OfflinePushInfo option"
  AtUserIDList :: "string list"
  Ex' :: string

definition MsgData_zero :: MsgData where
  "MsgData_zero =
     \<lparr> SendID = [], RecvID = [], GroupID = [], ClientMsgID = [], SenderPlatformID = 0,
       SenderNickname = [], SenderFaceURL = [], SessionType = 0, MsgFrom = 0, ContentType = 0,
       Content = [], CreateTime = 0, SendTime = 0, Options = Map.empty, OfflinePushInfo = None,
       AtUserIDList = [], Ex' = [] \<rparr>"

text \<open>\<^verbatim>\<open>apistruct.SendMsg\<close>, the caller's message parameters.\<close>

record SendMsg =
  SendID :: string
  GroupID :: string
  SenderNickname :: string
  SenderFaceURL :: string
  SenderPlatformID :: int32
  Content :: "(string \<times> json) list"
  ContentType :: int32
  SessionType :: int32
  IsOnlineOnly :: bool
  NotOfflinePush :: bool
  SendTime :: int64
  OfflinePushInfo :: "OfflinePushInfo option"
  Ex' :: string

record apistruct_SendMsgReq =
  RecvID :: string
  SendMsg :: SendMsg

record BatchSendMsgReq =
  SendMsg :: SendMsg
  IsSendAll :: bool
  RecvIDs :: "string list"

record SendSingleMsgReq =
  SendID :: string
  Content :: string
  OfflinePushInfo :: "OfflinePushInfo option"
  Ex' :: string

record KeyMsgData =
  SendID :: string
  RecvID :: string
  GroupID :: string

text \<open>The anonymous request struct of \<^verbatim>\<open>SendBusinessNotification\<close>.\<close>

record BusinessNotificationReq =
  Key :: string
  Data :: string
  SendUserID :: string
  RecvUserID :: string
  RecvGroupID :: string
  SendMsg :: bool
  ReliabilityLevel :: "int option"

record NotificationConfig =
  IsSendMsg :: bool
  ReliabilityLevel :: int
  UnreadCount :: bool

text \<open>The wire structures of the delivery backend (package \<^verbatim>\<open>msg\<close>).\<close>

record msg_SendMsgReq =
  MsgData :: MsgData

record SendSimpleMsgReq =
  MsgData :: MsgData

record msg_SendMsgResp =
  ServerMsgID :: string
  ClientMsgID :: string
  SendTime :: int64
  Modify :: "MsgData option"

record SendSimpleMsgResp =
  ServerMsgID :: string
  ClientMsgID :: string
  SendTime :: int64
  Modify :: "MsgData option"

text \<open>
  Reflection (package \<^verbatim>\<open>protoreflect\<close>). A field descriptor is known here by its field name
  and by its two JSON-name accessors; a field's value is one of the kinds a \<^verbatim>\<open>MsgData\<close> field
  can hold. \<^verbatim>\<open>Value.Equal\<close> is structural equality, which is equality of \<open>Value\<close>.
\<close>

record FieldDescriptor =
  Name :: string
  HasJSONName :: bool
  JSONName :: string

datatype Value =
    VString string
  | VBytes string
  | VInt32 int32
  | VInt64 int64
  | VBool bool
  | VList "string list"
  | VMap "string \<rightharpoonup> bool"
  | VMessage "OfflinePushInfo option"

text \<open>The caller-facing results (package \<^verbatim>\<open>apistruct\<close>).\<close>

record apistruct_SendMsgResp =
  SendMsgResp :: msg_SendMsgResp
  Modify :: "(string \<rightharpoonup> Value) option"

record SingleReturnResult =
  ServerMsgID :: string
  ClientMsgID :: string
  SendTime :: int64
  RecvID :: string
  Modify :: "(string \<rightharpoonup> Value) option"

record BatchSendMsgResp =
  Results :: "SingleReturnResult list"
  FailedIDs :: "string list"

text \<open>
  The remote calls the handlers make, in the order they are made. A collaborator is a remote
  service: what it answers may depend on every call it has received before, so each of its
  operations is given the calls made so far next to its request.
\<close>

datatype call =
    CallSendMsg msg_SendMsgReq
  | CallSendSimpleMsg SendSimpleMsgReq
  | CallSetSendMsgStatus int32
  | CallGetAllUserIDs int32 int32
  | CallGetNotificationByID string

record MsgClient =
  SendMsg :: "call list \<Rightarrow> msg_SendMsgReq \<Rightarrow> error + msg_SendMsgResp"
  SendSimpleMsg :: "call list \<Rightarrow> SendSimpleMsgReq \<Rightarrow> error + SendSimpleMsgResp"
  SetSendMsgStatus :: "call list \<Rightarrow> int32 \<Rightarrow> error option"

record UserClient =
  GetAllUserIDs :: "call list \<Rightarrow> int32 \<Rightarrow> int32 \<Rightarrow> error + string list"
  GetNotificationByID :: "call list \<Rightarrow> string \<Rightarrow> error option"

text \<open>
  \<^verbatim>\<open>MessageApi\<close>: the delivery backend, the identity and directory collaborator, and the
  struct validator (\<^verbatim>\<open>validate.Struct\<close>).
\<close>

record MessageApi =
  Client :: MsgClient
  userClient :: UserClient
  validate :: "data \<Rightarrow> error option"

text \<open>
  The constants of packages \<^verbatim>\<open>constant\<close> and \<^verbatim>\<open>webhook\<close>. Their declarations are not part of
  this file, so they are parameters: nothing below depends on their values.
\<close>

record constants =
  Text :: int32
  Picture :: int32
  Voice :: int32
  Video :: int32
  File :: int32
  AtText :: int32
  Custom :: int32
  MarkdownText :: int32
  OANotification :: int32
  BusinessNotification :: int32
  SysMsgType :: int32
  UserMsgType :: int32
  SingleChatType :: int32
  ReadGroupChatType :: int32
  NotificationChatType :: int32
  AdminPlatformID :: int32
  MsgSendSuccessed :: int
  IsHistory :: string
  IsPersistent :: string
  IsSenderSync :: string
  IsConversationUpdate :: string
  IsOfflinePush :: string
  webhook_Key :: string

text \<open>
  The library functions the file calls, as parameters too. A library error that the file
  only ever turns into text (\<^verbatim>\<open>err.Error()\<close>) is returned as that text.
  \<^item> \<open>GetCurrentTimestampByMill\<close>: the clock reading of \<^verbatim>\<open>timeutil\<close> at build time;
  \<^item> \<open>GetCurrentTimestampByNano\<close>, \<open>rand_Int63\<close>, \<open>Md5\<close>: what the message-ID generator of
    \<^verbatim>\<open>idutil\<close> works with, namely the reading of the nanosecond clock and the number drawn
    from \<^verbatim>\<open>math/rand\<close> at the one call a handler makes, and the hash it computes of the
    clock reading, its argument and the draw;
  \<^item> \<open>StructToJsonString\<close>, \<open>JsonMarshal\<close>: the serialisers of \<^verbatim>\<open>jsonutil\<close>;
  \<^item> \<open>DecodeString\<close>: \<^verbatim>\<open>base64.StdEncoding.DecodeString\<close>;
  \<^item> \<open>Unmarshal\<close>: \<^verbatim>\<open>json.Unmarshal\<close> into a \<^verbatim>\<open>KeyMsgData\<close>;
  \<^item> \<open>WeakDecode\<close>: \<^verbatim>\<open>mapstructure.WeakDecode\<close> of a content map into a container;
  \<^item> \<open>GetOptionsByNotification\<close>: \<^verbatim>\<open>config.GetOptionsByNotification(cfg, nil)\<close>.
\<close>

record library =
  GetCurrentTimestampByMill :: int64
  GetCurrentTimestampByNano :: int64
  rand_Int63 :: int64
  Md5 :: "int64 \<Rightarrow> string \<Rightarrow> int64 \<Rightarrow> string"
  StructToJsonString :: "any \<Rightarrow> string"
  JsonMarshal :: "any \<Rightarrow> error + string"
  DecodeString :: "string \<Rightarrow> string + string"
  Unmarshal :: "string \<Rightarrow> string + KeyMsgData"
  WeakDecode :: "(string \<times> json) list \<Rightarrow> data \<Rightarrow> error + data"
  GetOptionsByNotification :: "NotificationConfig \<Rightarrow> (string \<rightharpoonup> bool)"

text \<open>
  \<^verbatim>\<open>idutil.GetMsgIDByMD5\<close>: the generator is given one string, and hashes it together with
  a fresh reading of the nanosecond clock and a fresh random number. Two calls with one
  argument therefore differ in what they hash.
\<close>

definition GetMsgIDByMD5 :: "library \<Rightarrow> string \<Rightarrow> string" where
  "GetMsgIDByMD5 l sendID = Md5 l (GetCurrentTimestampByNano l) sendID (rand_Int63 l)"

text \<open>
  The generated descriptors of the two protocol messages, and reflective field access
  \<^verbatim>\<open>m.ProtoReflect().Get(fd)\<close> on a \<^verbatim>\<open>MsgData\<close>.
\<close>

record protoreflect =
  SendMsgResp_Fields :: "FieldDescriptor list"
  MsgData_Fields :: "FieldDescriptor list"
  Get :: "MsgData \<Rightarrow> FieldDescriptor \<Rightarrow> Value"

record env =
  K :: constants
  lib :: library
  proto :: protoreflect
  api :: MessageApi

text \<open>
  The request context: the bound JSON body (or the text of the binding error), the two
  privilege checks of \<^verbatim>\<open>authverify\<close>, the operating user of \<^verbatim>\<open>mcontext\<close>, and the query
  parameters.
\<close>

record 'r Context =
  BindJSON :: "string + 'r"
  IsAdmin :: bool
  CheckAdmin :: "error option"
  GetOpUserID :: string
  GetQuery :: "string \<rightharpoonup> string"

text \<open>
  The state a handler runs in: the package variables \<^verbatim>\<open>msgDataDescriptor\<close> and
  \<^verbatim>\<open>msgDataDescriptorOnce\<close> (has the \<^verbatim>\<open>sync.Once\<close> fired), and the remote calls made so far.
\<close>

record state =
  msgDataDescriptor :: "FieldDescriptor list"
  msgDataDescriptorOnce :: bool
  calls :: "call list"

definition state_init :: state where
  "state_init = \<lparr> msgDataDescriptor = [], msgDataDescriptorOnce = False, calls = [] \<rparr>"

section \<open>The diff engine\<close>

text \<open>The two loops of \<^verbatim>\<open>getMsgDataDescriptor\<close>: the skip set, then the kept descriptors.\<close>

fun skip_loop :: "FieldDescriptor list \<Rightarrow> string set \<Rightarrow> string set" where
  "skip_loop [] skip = skip"
| "skip_loop (field # respFields) skip =
     (if \<not> HasJSONName field then skip_loop respFields skip
      else skip_loop respFields (insert (JSONName field) skip))"

fun descriptor_loop ::
  "string set \<Rightarrow> FieldDescriptor list \<Rightarrow> FieldDescriptor list \<Rightarrow> FieldDescriptor list" where
  "descriptor_loop skip [] acc = acc"
| "descriptor_loop skip (field # flds) acc =
     (if \<not> HasJSONName field then descriptor_loop skip flds acc
      else if JSONName field \<in> skip then descriptor_loop skip flds acc
      else descriptor_loop skip flds (acc @ [field]))"

text \<open>
  \<^verbatim>\<open>msgDataDescriptorOnce.Do(...)\<close>: the body runs when the once has not fired, and never
  again.
\<close>

definition getMsgDataDescriptor :: "protoreflect \<Rightarrow> state \<Rightarrow> FieldDescriptor list \<times> state" where
  "getMsgDataDescriptor p s =
     (let s' =
        (if msgDataDescriptorOnce s then s
         else s\<lparr> msgDataDescriptor :=
                   descriptor_loop (skip_loop (SendMsgResp_Fields p) {}) (MsgData_Fields p) [],
                 msgDataDescriptorOnce := True \<rparr>)
      in (msgDataDescriptor s', s'))"

fun modify_loop ::
  "(MsgData \<Rightarrow> FieldDescriptor \<Rightarrow> Value) \<Rightarrow> MsgData \<Rightarrow> MsgData \<Rightarrow> FieldDescriptor list \<Rightarrow>
   (string \<rightharpoonup> Value) \<Rightarrow> (string \<rightharpoonup> Value)" where
  "modify_loop G req respModify [] flds = flds"
| "modify_loop G req respModify (descriptor # rest) flds =
     (let reqValue = G req descriptor;
          respValue = G respModify descriptor
      in if reqValue \<noteq> respValue then
           (let name = JSONName descriptor;
                val = (if name = ''content''
                       then (case respValue of VBytes bs \<Rightarrow> VString bs | _ \<Rightarrow> respValue)
                       else respValue)
            in modify_loop G req respModify rest (flds(name \<mapsto> val)))
         else modify_loop G req respModify rest flds)"

text \<open>The result \<open>None\<close> is Go's nil map.\<close>

definition getModifyFields ::
  "protoreflect \<Rightarrow> MsgData option \<Rightarrow> MsgData option \<Rightarrow> state \<Rightarrow> (string \<rightharpoonup> Value) option \<times> state"
  where
  "getModifyFields p req respModify s =
     (case req of
        None \<Rightarrow> (None, s)
      | Some rq \<Rightarrow>
          (case respModify of
             None \<Rightarrow> (None, s)
           | Some rs \<Rightarrow>
               (let (descriptors, s') = getMsgDataDescriptor p s;
                    flds = modify_loop (Get p) rq rs descriptors Map.empty
                in (if flds = Map.empty then None else Some flds, s'))))"

section \<open>Delivery options and the envelope builder\<close>

text \<open>
  Modelled from the spec: \<^verbatim>\<open>datautil.SetSwitchFromOptions\<close> is a helper of another module and
  not among the sources. The spec's delivery-option policy has it force the named switch of
  the option set to the given state, so it writes the entry of the key. It has no result:
  it writes into the map it is given, and the value here is the caller's map after the
  call. The option set \<open>None\<close> is Go's nil map, which cannot be written in place: whatever
  the helper does with it, the caller's map is nil as before.
\<close>

definition SetSwitchFromOptions ::
  "(string \<rightharpoonup> bool) option \<Rightarrow> string \<Rightarrow> bool \<Rightarrow> (string \<rightharpoonup> bool) option" where
  "SetSwitchFromOptions options key b =
     (case options of None \<Rightarrow> None | Some m \<Rightarrow> Some (m(key \<mapsto> b)))"

definition SetOptions ::
  "constants \<Rightarrow> (string \<rightharpoonup> bool) option \<Rightarrow> bool \<Rightarrow> (string \<rightharpoonup> bool) option" where
  "SetOptions k options b =
     (let options = SetSwitchFromOptions options (IsHistory k) b;
          options = SetSwitchFromOptions options (IsPersistent k) b;
          options = SetSwitchFromOptions options (IsSenderSync k) b;
          options = SetSwitchFromOptions options (IsConversationUpdate k) b
      in options)"

text \<open>
  The assignment \<^verbatim>\<open>msgData.Options = options\<close>: on the envelope a nil map is an option set
  without entries.
\<close>

definition assign_Options :: "(string \<rightharpoonup> bool) option \<Rightarrow> (string \<rightharpoonup> bool)" where
  "assign_Options options = (case options of None \<Rightarrow> Map.empty | Some m \<Rightarrow> m)"

text \<open>
  \<^verbatim>\<open>newUserSendMsgReq\<close>. The \<^verbatim>\<open>switch\<close> on the content type: the notification case has a
  body of its own; \<^verbatim>\<open>Text\<close> falls through to \<^verbatim>\<open>AtText\<close>, whose body lifts the mentioned
  users when the container is an \<^verbatim>\<open>AtElem\<close>, and then, like every other case, falls
  through to the default.
\<close>

definition newUserSendMsgReq :: "env \<Rightarrow> SendMsg \<Rightarrow> data \<Rightarrow> msg_SendMsgReq" where
  "newUserSendMsgReq e params dat =
     (let msgData =
            \<lparr> MsgData.SendID = SendMsg.SendID params,
              MsgData.RecvID = [],
              MsgData.GroupID = SendMsg.GroupID params,
              MsgData.ClientMsgID = GetMsgIDByMD5 (lib e) (SendMsg.SendID params),
              MsgData.SenderPlatformID = SendMsg.SenderPlatformID params,
              MsgData.SenderNickname = SendMsg.SenderNickname params,
              MsgData.SenderFaceURL = SendMsg.SenderFaceURL params,
              MsgData.SessionType = SendMsg.SessionType params,
              MsgData.MsgFrom = SysMsgType (K e),
              MsgData.ContentType = SendMsg.ContentType params,
              MsgData.Content = [],
              MsgData.CreateTime = GetCurrentTimestampByMill (lib e),
              MsgData.SendTime = SendMsg.SendTime params,
              MsgData.Options = Map.empty,
              MsgData.OfflinePushInfo = SendMsg.OfflinePushInfo params,
              MsgData.AtUserIDList = [],
              MsgData.Ex' = SendMsg.Ex' params \<rparr>;
          options = Some Map.empty;
          (newContent, msgData) =
            (if SendMsg.ContentType params = OANotification (K e) then
               (StructToJsonString (lib e)
                  (NotificationElem
                     (StructToJsonString (lib e) (MapContent (SendMsg.Content params)))),
                msgData)
             else
               (StructToJsonString (lib e) (MapContent (SendMsg.Content params)),
                if SendMsg.ContentType params = Text (K e) \<or>
                   SendMsg.ContentType params = AtText (K e)
                then (if elem dat = AtElem then msgData\<lparr> MsgData.AtUserIDList := AtUserList dat \<rparr>
                      else msgData)
                else msgData));
          options = (if IsOnlineOnly params then SetOptions (K e) options False else options);
          options = (if NotOfflinePush params
                     then SetSwitchFromOptions options (IsOfflinePush (K e)) False
                     else options)
      in \<lparr> msg_SendMsgReq.MsgData =
             msgData\<lparr> MsgData.Content := newContent,
                      MsgData.Options := assign_Options options \<rparr> \<rparr>)"

section \<open>The content schema registry\<close>

text \<open>Lines 231 to 238 of \<^verbatim>\<open>getSendMsgReq\<close>: decode, validate, build.\<close>

definition decode_build :: "env \<Rightarrow> SendMsg \<Rightarrow> elem \<Rightarrow> state \<Rightarrow> (error + msg_SendMsgReq) \<times> state"
  where
  "decode_build e req container s =
     (case WeakDecode (lib e) (SendMsg.Content req)
             \<lparr> elem = container, decoded = [], AtUserList = [] \<rparr> of
        Inl err \<Rightarrow> (Inl (WrapMsg err ''failed to decode message content''), s)
      | Inr dat \<Rightarrow>
          (case validate (api e) dat of
             Some err \<Rightarrow> (Inl (WrapMsg err ''validation error''), s)
           | None \<Rightarrow> (Inr (newUserSendMsgReq e req dat), s)))"

definition getSendMsgReq :: "env \<Rightarrow> SendMsg \<Rightarrow> state \<Rightarrow> (error + msg_SendMsgReq) \<times> state" where
  "getSendMsgReq e req s =
     (let ct = SendMsg.ContentType req in
      if ct = Text (K e) then decode_build e req TextElem s
      else if ct = Picture (K e) then decode_build e req PictureElem s
      else if ct = Voice (K e) then decode_build e req SoundElem s
      else if ct = Video (K e) then decode_build e req VideoElem s
      else if ct = File (K e) then decode_build e req FileElem s
      else if ct = AtText (K e) then decode_build e req AtElem s
      else if ct = Custom (K e) then decode_build e req CustomElem s
      else if ct = MarkdownText (K e) then decode_build e req MarkdownTextElem s
      else if ct = OANotification (K e) then
        (let req = req\<lparr> SendMsg.SessionType := NotificationChatType (K e) \<rparr>;
             s' = s\<lparr> calls := calls s @ [CallGetNotificationByID (SendMsg.SendID req)] \<rparr>
         in case GetNotificationByID (userClient (api e)) (calls s) (SendMsg.SendID req) of
              Some err \<Rightarrow> (Inl err, s')
            | None \<Rightarrow> decode_build e req OANotificationElem s')
      else (Inl (WrapMsg ErrArgs ''unsupported content type''), s))"

section \<open>The dispatcher\<close>

text \<open>The assignment \<^verbatim>\<open>sendMsgReq.MsgData.RecvID = recvID\<close>.\<close>

definition set_RecvID :: "msg_SendMsgReq \<Rightarrow> string \<Rightarrow> msg_SendMsgReq" where
  "set_RecvID sendMsgReq recvID =
     sendMsgReq\<lparr> msg_SendMsgReq.MsgData :=
       (msg_SendMsgReq.MsgData sendMsgReq)\<lparr> MsgData.RecvID := recvID \<rparr> \<rparr>"

definition ginRespSendMsg ::
  "env \<Rightarrow> msg_SendMsgReq \<Rightarrow> msg_SendMsgResp \<Rightarrow> state \<Rightarrow> (error + apistruct_SendMsgResp) \<times> state"
  where
  "ginRespSendMsg e req resp s =
     (let (res, s') = getModifyFields (proto e) (Some (msg_SendMsgReq.MsgData req))
                        (msg_SendMsgResp.Modify resp) s;
          resp = resp\<lparr> msg_SendMsgResp.Modify := None \<rparr>
      in (Inr \<lparr> SendMsgResp = resp, apistruct_SendMsgResp.Modify = res \<rparr>, s'))"

definition SendMessage ::
  "env \<Rightarrow> apistruct_SendMsgReq Context \<Rightarrow> state \<Rightarrow> (error + apistruct_SendMsgResp) \<times> state"
  where
  "SendMessage e c s =
     (case BindJSON c of
        Inl err \<Rightarrow> (Inl (WithDetail ErrArgs err), s)
      | Inr req \<Rightarrow>
          if \<not> IsAdmin c
          then (Inl (WrapMsg ErrNoPermission ''only app manager can send message''), s)
          else
            (case getSendMsgReq e (apistruct_SendMsgReq.SendMsg req) s of
               (Inl err, s1) \<Rightarrow> (Inl err, s1)
             | (Inr sendMsgReq, s1) \<Rightarrow>
                 (let sendMsgReq = set_RecvID sendMsgReq (apistruct_SendMsgReq.RecvID req);
                      s2 = s1\<lparr> calls := calls s1 @ [CallSendMsg sendMsgReq] \<rparr>
                  in case MsgClient.SendMsg (Client (api e)) (calls s1) sendMsgReq of
                       Inl err \<Rightarrow> (Inl err, s2)
                     | Inr respPb \<Rightarrow>
                         (let status = MsgSendSuccessed (K e);
                              s3 = s2\<lparr> calls := calls s2 @
                                     [CallSetSendMsgStatus (word_of_int status)] \<rparr>
                          in case SetSendMsgStatus (Client (api e)) (calls s2)
                                    (word_of_int status) of
                               Some err \<Rightarrow> (Inl err, s3)
                             | None \<Rightarrow> ginRespSendMsg e sendMsgReq respPb s3))))"

text \<open>The envelope literal of \<^verbatim>\<open>SendBusinessNotification\<close> (lines 368 to 390).\<close>

definition businessNotificationReq ::
  "env \<Rightarrow> string \<Rightarrow> BusinessNotificationReq \<Rightarrow> int32 \<Rightarrow> int \<Rightarrow> msg_SendMsgReq" where
  "businessNotificationReq e opUserID req sessionType reliabilityLevel =
     \<lparr> msg_SendMsgReq.MsgData =
         MsgData_zero
           \<lparr> MsgData.SendID := SendUserID req,
             MsgData.RecvID := RecvUserID req,
             MsgData.GroupID := RecvGroupID req,
             MsgData.Content :=
               StructToJsonString (lib e)
                 (NotificationElem (StructToJsonString (lib e) (KeyData (Key req) (Data req)))),
             MsgFrom := SysMsgType (K e),
             MsgData.ContentType := BusinessNotification (K e),
             MsgData.SessionType := sessionType,
             CreateTime := GetCurrentTimestampByMill (lib e),
             MsgData.ClientMsgID := GetMsgIDByMD5 (lib e) opUserID,
             Options :=
               GetOptionsByNotification (lib e)
                 \<lparr> IsSendMsg = BusinessNotificationReq.SendMsg req,
                   ReliabilityLevel = reliabilityLevel,
                   UnreadCount = False \<rparr> \<rparr> \<rparr>"

definition SendBusinessNotification ::
  "env \<Rightarrow> BusinessNotificationReq Context \<Rightarrow> state \<Rightarrow>
   (error + apistruct_SendMsgResp) \<times> state" where
  "SendBusinessNotification e c s =
     (case BindJSON c of
        Inl err \<Rightarrow> (Inl (WithDetail ErrArgs err), s)
      | Inr req \<Rightarrow>
          if RecvUserID req = [] \<and> RecvGroupID req = [] then
            (Inl (WrapMsg ErrArgs
               ''recvUserID and recvGroupID cannot be empty at the same time''), s)
          else if RecvUserID req \<noteq> [] \<and> RecvGroupID req \<noteq> [] then
            (Inl (WrapMsg ErrArgs
               ''recvUserID and recvGroupID cannot be set at the same time''), s)
          else
            (let sessionType = (if RecvUserID req \<noteq> [] then SingleChatType (K e)
                                else ReadGroupChatType (K e));
                 reliabilityLevel =
                   (case BusinessNotificationReq.ReliabilityLevel req of
                      None \<Rightarrow> 1 | Some l \<Rightarrow> l)
             in if \<not> IsAdmin c
                then (Inl (WrapMsg ErrNoPermission ''only app manager can send message''), s)
                else
                  (let sendMsgReq = businessNotificationReq e (GetOpUserID c) req sessionType
                                      reliabilityLevel;
                       s1 = s\<lparr> calls := calls s @ [CallSendMsg sendMsgReq] \<rparr>
                   in case MsgClient.SendMsg (Client (api e)) (calls s) sendMsgReq of
                        Inl err \<Rightarrow> (Inl err, s1)
                      | Inr respPb \<Rightarrow> ginRespSendMsg e sendMsgReq respPb s1)))"

text \<open>
  \<^verbatim>\<open>BatchSendMsg\<close>, the paging loop of "send to all" (lines 415 to 428). The loop has no
  bound of its own, so it is a partial function: \<open>None\<close> is a run that never returns.
  \<^verbatim>\<open>pageNumber\<close> is an \<^verbatim>\<open>int32\<close> and \<^verbatim>\<open>pageNumber++\<close> wraps.
\<close>

definition showNumber :: int where
  "showNumber = 500"

partial_function (option) GetAllUserIDs_loop ::
  "UserClient \<Rightarrow> int32 \<Rightarrow> string list \<Rightarrow> state \<Rightarrow> ((error + string list) \<times> state) option"
  where
  "GetAllUserIDs_loop uc pageNumber recvIDs s =
     (let s' = s\<lparr> calls := calls s @ [CallGetAllUserIDs pageNumber (word_of_int showNumber)] \<rparr>
      in case GetAllUserIDs uc (calls s) pageNumber (word_of_int showNumber) of
           Inl err \<Rightarrow> Some (Inl err, s')
         | Inr recvIDsPart \<Rightarrow>
             (let recvIDs = recvIDs @ recvIDsPart
              in if int (length recvIDsPart) < showNumber then Some (Inr recvIDs, s')
                 else GetAllUserIDs_loop uc (pageNumber + 1) recvIDs s'))"

text \<open>The loop over the recipients (lines 438 to 452).\<close>

fun SendMsg_loop ::
  "env \<Rightarrow> string list \<Rightarrow> msg_SendMsgReq \<Rightarrow> BatchSendMsgResp \<Rightarrow> state \<Rightarrow> BatchSendMsgResp \<times> state"
  where
  "SendMsg_loop e [] sendMsgReq resp s = (resp, s)"
| "SendMsg_loop e (recvID # recvIDs) sendMsgReq resp s =
     (let sendMsgReq = set_RecvID sendMsgReq recvID;
          s1 = s\<lparr> calls := calls s @ [CallSendMsg sendMsgReq] \<rparr>
      in case MsgClient.SendMsg (Client (api e)) (calls s) sendMsgReq of
           Inl err \<Rightarrow>
             SendMsg_loop e recvIDs sendMsgReq
               (resp\<lparr> FailedIDs := FailedIDs resp @ [recvID] \<rparr>) s1
         | Inr rpcResp \<Rightarrow>
             (let (modify, s2) =
                    getModifyFields (proto e) (Some (msg_SendMsgReq.MsgData sendMsgReq))
                      (msg_SendMsgResp.Modify rpcResp) s1
              in SendMsg_loop e recvIDs sendMsgReq
                   (resp\<lparr> Results := Results resp @
                      [\<lparr> SingleReturnResult.ServerMsgID = msg_SendMsgResp.ServerMsgID rpcResp,
                         SingleReturnResult.ClientMsgID = msg_SendMsgResp.ClientMsgID rpcResp,
                         SingleReturnResult.SendTime = msg_SendMsgResp.SendTime rpcResp,
                         SingleReturnResult.RecvID = recvID,
                         SingleReturnResult.Modify = modify \<rparr>] \<rparr>) s2))"

definition BatchSendMsg ::
  "env \<Rightarrow> BatchSendMsgReq Context \<Rightarrow> state \<Rightarrow> ((error + BatchSendMsgResp) \<times> state) option"
  where
  "BatchSendMsg e c s =
     (case BindJSON c of
        Inl err \<Rightarrow> Some (Inl (WithDetail ErrArgs err), s)
      | Inr req \<Rightarrow>
          (case CheckAdmin c of
             Some err \<Rightarrow>
               Some (Inl (WrapMsg ErrNoPermission ''only app manager can send message''), s)
           | None \<Rightarrow>
               (case (if IsSendAll req then GetAllUserIDs_loop (userClient (api e)) 1 [] s
                      else Some (Inr (RecvIDs req), s)) of
                  None \<Rightarrow> None
                | Some (Inl err, s1) \<Rightarrow> Some (Inl err, s1)
                | Some (Inr recvIDs, s1) \<Rightarrow>
                    (case getSendMsgReq e (BatchSendMsgReq.SendMsg req) s1 of
                       (Inl err, s2) \<Rightarrow> Some (Inl err, s2)
                     | (Inr sendMsgReq, s2) \<Rightarrow>
                         (let (resp, s3) =
                                SendMsg_loop e recvIDs sendMsgReq
                                  \<lparr> Results = [], FailedIDs = [] \<rparr> s2
                          in Some (Inr resp, s3))))))"

text \<open>
  For the statements about the two loops of \<^verbatim>\<open>BatchSendMsg\<close>: the answers the backend gives
  to the submissions of the recipient loop, in order, and the requests for \<open>n\<close> consecutive
  directory pages from page \<open>p\<close> on.
\<close>

fun submissions ::
  "env \<Rightarrow> msg_SendMsgReq \<Rightarrow> call list \<Rightarrow> string list \<Rightarrow> (error + msg_SendMsgResp) list" where
  "submissions e req log [] = []"
| "submissions e req log (recvID # recvIDs) =
     MsgClient.SendMsg (Client (api e)) log (set_RecvID req recvID) #
     submissions e req (log @ [CallSendMsg (set_RecvID req recvID)]) recvIDs"

definition page_calls :: "int32 \<Rightarrow> nat \<Rightarrow> call list" where
  "page_calls p n = map (\<lambda>j. CallGetAllUserIDs (p + of_nat j) (word_of_int showNumber)) [0..<n]"

text \<open>The directory pages a call log requests, in order: page number and page size.\<close>

fun page_request :: "call \<Rightarrow> (int32 \<times> int32) list" where
  "page_request (CallGetAllUserIDs pageNumber n) = [(pageNumber, n)]"
| "page_request _ = []"

definition page_requests :: "call list \<Rightarrow> (int32 \<times> int32) list" where
  "page_requests log = concat (map page_request log)"

text \<open>The envelope literal of \<^verbatim>\<open>SendSimpleMessage\<close> (lines 508 to 520).\<close>

definition simpleMsgData ::
  "env \<Rightarrow> string \<Rightarrow> string \<Rightarrow> KeyMsgData \<Rightarrow> int32 \<Rightarrow> string \<Rightarrow> SendSingleMsgReq \<Rightarrow> MsgData"
  where
  "simpleMsgData e sendID recvID keyMsgData sessionType content req =
     MsgData_zero
       \<lparr> MsgData.SendID := sendID,
         MsgData.RecvID := recvID,
         MsgData.GroupID := KeyMsgData.GroupID keyMsgData,
         MsgData.ClientMsgID := GetMsgIDByMD5 (lib e) sendID,
         MsgData.SenderPlatformID := AdminPlatformID (K e),
         MsgData.SessionType := sessionType,
         MsgFrom := UserMsgType (K e),
         MsgData.ContentType := MarkdownText (K e),
         MsgData.Content := content,
         MsgData.OfflinePushInfo := SendSingleMsgReq.OfflinePushInfo req,
         MsgData.Ex' := SendSingleMsgReq.Ex' req \<rparr>"

text \<open>Lines 485 to 492: session type, sender and recipient from the decoded key.\<close>

definition routing :: "env \<Rightarrow> KeyMsgData \<Rightarrow> SendSingleMsgReq \<Rightarrow> int32 \<times> string \<times> string" where
  "routing e keyMsgData req =
     (if KeyMsgData.GroupID keyMsgData \<noteq> []
      then (ReadGroupChatType (K e), SendSingleMsgReq.SendID req, [])
      else (SingleChatType (K e), KeyMsgData.RecvID keyMsgData, KeyMsgData.SendID keyMsgData))"

text \<open>Lines 503 to 548: serialise, build, submit, record the status, answer.\<close>

definition submit_simple ::
  "env \<Rightarrow> KeyMsgData \<Rightarrow> SendSingleMsgReq \<Rightarrow> int32 \<Rightarrow> string \<Rightarrow> string \<Rightarrow> state \<Rightarrow>
   (error + apistruct_SendMsgResp) \<times> state" where
  "submit_simple e keyMsgData req sessionType sendID recvID s =
     (case JsonMarshal (lib e) (MarkdownTextContent (SendSingleMsgReq.Content req)) of
        Inl err \<Rightarrow> (Inl (Wrap err), s)
      | Inr content \<Rightarrow>
          (let msgData = simpleMsgData e sendID recvID keyMsgData sessionType content req;
               sendReq = \<lparr> SendSimpleMsgReq.MsgData = msgData \<rparr>;
               s1 = s\<lparr> calls := calls s @ [CallSendSimpleMsg sendReq] \<rparr>
           in case SendSimpleMsg (Client (api e)) (calls s) sendReq of
                Inl err \<Rightarrow> (Inl err, s1)
              | Inr respPb \<Rightarrow>
                  (let status = MsgSendSuccessed (K e);
                       s2 = s1\<lparr> calls := calls s1 @
                              [CallSetSendMsgStatus (word_of_int status)] \<rparr>
                   in case SetSendMsgStatus (Client (api e)) (calls s1)
                             (word_of_int status) of
                        Some err \<Rightarrow> (Inl err, s2)
                      | None \<Rightarrow>
                          ginRespSendMsg e
                            \<lparr> msg_SendMsgReq.MsgData = SendSimpleMsgReq.MsgData sendReq \<rparr>
                            \<lparr> msg_SendMsgResp.ServerMsgID = SendSimpleMsgResp.ServerMsgID respPb,
                              msg_SendMsgResp.ClientMsgID = SendSimpleMsgResp.ClientMsgID respPb,
                              msg_SendMsgResp.SendTime = SendSimpleMsgResp.SendTime respPb,
                              msg_SendMsgResp.Modify = SendSimpleMsgResp.Modify respPb \<rparr>
                            s2)))"

definition SendSimpleMessage ::
  "env \<Rightarrow> SendSingleMsgReq Context \<Rightarrow> state \<Rightarrow> (error + apistruct_SendMsgResp) \<times> state"
  where
  "SendSimpleMessage e c s =
     (case GetQuery c (webhook_Key (K e)) of
        None \<Rightarrow> (Inl (WithDetail ErrArgs ''missing key in query''), s)
      | Some encodedKey \<Rightarrow>
          (case DecodeString (lib e) encodedKey of
             Inl err \<Rightarrow> (Inl (WithDetail ErrArgs err), s)
           | Inr decodedData \<Rightarrow>
               (case BindJSON c of
                  Inl err \<Rightarrow> (Inl (WithDetail ErrArgs err), s)
                | Inr req \<Rightarrow>
                    (case Unmarshal (lib e) decodedData of
                       Inl err \<Rightarrow> (Inl (WithDetail ErrArgs err), s)
                     | Inr keyMsgData \<Rightarrow>
                         (let (sessionType, sendID, recvID) = routing e keyMsgData req
                          in if KeyMsgData.SendID keyMsgData = [] then
                               (Inl (WithDetail ErrArgs ''missing recvID or GroupID''), s)
                             else if sendID = [] then
                               (Inl (WithDetail ErrArgs ''missing sendID''), s)
                             else submit_simple e keyMsgData req sessionType sendID recvID
                                    s)))))"

text \<open>The field names a diff reports: none for the nil map.\<close>

definition reported :: "(string \<rightharpoonup> Value) option \<Rightarrow> string set" where
  "reported res = (case res of None \<Rightarrow> {} | Some flds \<Rightarrow> dom flds)"

text \<open>
  The package variables are consistent with the descriptors \<open>p\<close>: the once has not fired, or
  \<^verbatim>\<open>msgDataDescriptor\<close> holds what its body derives from \<open>p\<close>.
\<close>

definition descriptor_cached :: "protoreflect \<Rightarrow> state \<Rightarrow> bool" where
  "descriptor_cached p s \<longleftrightarrow>
     \<not> msgDataDescriptorOnce s \<or>
     msgDataDescriptor s =
       descriptor_loop (skip_loop (SendMsgResp_Fields p) {}) (MsgData_Fields p) []"

section \<open>A concrete instance for the worked examples\<close>

text \<open>
  Descriptors for the envelope fields named in this file and for the four fields of the
  acknowledgment, each with its JSON name, and field access by name.
\<close>

definition example_field :: "string \<Rightarrow> FieldDescriptor" where
  "example_field n = \<lparr> Name = n, HasJSONName = True, JSONName = n \<rparr>"

definition example_Get :: "MsgData \<Rightarrow> FieldDescriptor \<Rightarrow> Value" where
  "example_Get m fd =
     (if Name fd = ''sendID'' then VString (MsgData.SendID m)
      else if Name fd = ''recvID'' then VString (MsgData.RecvID m)
      else if Name fd = ''groupID'' then VString (MsgData.GroupID m)
      else if Name fd = ''clientMsgID'' then VString (MsgData.ClientMsgID m)
      else if Name fd = ''senderPlatformID'' then VInt32 (MsgData.SenderPlatformID m)
      else if Name fd = ''senderNickname'' then VString (MsgData.SenderNickname m)
      else if Name fd = ''senderFaceURL'' then VString (MsgData.SenderFaceURL m)
      else if Name fd = ''sessionType'' then VInt32 (MsgData.SessionType m)
      else if Name fd = ''msgFrom'' then VInt32 (MsgFrom m)
      else if Name fd = ''contentType'' then VInt32 (MsgData.ContentType m)
      else if Name fd = ''content'' then VBytes (MsgData.Content m)
      else if Name fd = ''sendTime'' then VInt64 (MsgData.SendTime m)
      else if Name fd = ''createTime'' then VInt64 (CreateTime m)
      else if Name fd = ''options'' then VMap (Options m)
      else if Name fd = ''offlinePushInfo'' then VMessage (MsgData.OfflinePushInfo m)
      else if Name fd = ''atUserIDList'' then VList (AtUserIDList m)
      else VString (MsgData.Ex' m))"

definition example_proto :: protoreflect where
  "example_proto =
     \<lparr> SendMsgResp_Fields =
         map example_field [''serverMsgID'', ''clientMsgID'', ''sendTime'', ''modify''],
       MsgData_Fields =
         map example_field
           [''sendID'', ''recvID'', ''groupID'', ''clientMsgID'', ''senderPlatformID'',
            ''senderNickname'', ''senderFaceURL'', ''sessionType'', ''msgFrom'',
            ''contentType'', ''content'', ''sendTime'', ''createTime'', ''options'',
            ''offlinePushInfo'', ''atUserIDList'', ''ex''],
       Get = example_Get \<rparr>"

definition example_sent :: MsgData where
  "example_sent =
     MsgData_zero \<lparr> MsgData.SendID := ''u1'', MsgData.RecvID := ''u2'',
       MsgData.ClientMsgID := ''c-1'', MsgData.Content := ''hello'', CreateTime := 1000 \<rparr>"

text \<open>An acknowledgment that echoes the envelope but for the client ID and the send time.\<close>

definition example_echo :: MsgData where
  "example_echo = example_sent \<lparr> MsgData.ClientMsgID := ''c-2'', MsgData.SendTime := 2000 \<rparr>"

text \<open>An acknowledgment whose content the backend rewrote as well.\<close>

definition example_rewritten :: MsgData where
  "example_rewritten = example_echo \<lparr> MsgData.Content := ''h***o'' \<rparr>"

text \<open>The state of a process that has computed one diff.\<close>

definition example_warm :: state where
  "example_warm = snd (getMsgDataDescriptor example_proto state_init)"

text \<open>
  Values for the parameters: the protocol's constants, and stand-ins for the libraries and
  the collaborators. The hash stand-in writes out what it is given, the two numbers in
  decimal; the transport decoder accepts five keys and the structure decoder reads four of
  them; the backend refuses the recipient \<open>''u-bad''\<close> and otherwise echoes the envelope
  with a server ID and a send time; the directory holds one full page and a short one.
\<close>

function decimal :: "nat \<Rightarrow> string" where
  "decimal n =
     (if n < 10 then [''0123456789'' ! n]
      else decimal (n div 10) @ [''0123456789'' ! (n mod 10)])"
  by pat_completeness auto

termination
  by (relation "measure id") auto

declare decimal.simps [simp del]

text \<open>
  The routing key \<^verbatim>\<open>{"sendID":"u1","recvID":"bot"}\<close>, a JSON object, whose base64 encoding is
  \<^verbatim>\<open>eyJzZW5kSUQiOiJ1MSIsInJlY3ZJRCI6ImJvdCJ9\<close>.
\<close>

definition quoted :: "string \<Rightarrow> string" where
  "quoted s = CHR 0x22 # s @ [CHR 0x22]"

definition example_key_json :: string where
  "example_key_json =
     ''{'' @ quoted ''sendID'' @ '':'' @ quoted ''u1'' @ '','' @ quoted ''recvID'' @ '':'' @
     quoted ''bot'' @ ''}''"

definition example_constants :: constants where
  "example_constants =
     \<lparr> Text = 101, Picture = 102, Voice = 103, Video = 104, File = 105, AtText = 106,
       Custom = 110, MarkdownText = 118, OANotification = 1400, BusinessNotification = 2001,
       SysMsgType = 200, UserMsgType = 100, SingleChatType = 1, ReadGroupChatType = 3,
       NotificationChatType = 4, AdminPlatformID = 10, MsgSendSuccessed = 2,
       IsHistory = ''history'', IsPersistent = ''persistent'', IsSenderSync = ''senderSync'',
       IsConversationUpdate = ''conversationUpdate'', IsOfflinePush = ''offlinePush'',
       webhook_Key = ''key'' \<rparr>"

definition example_json :: "any \<Rightarrow> string" where
  "example_json a =
     (case a of
        MapContent m \<Rightarrow> ''map:'' @ concat (map fst m)
      | NotificationElem d \<Rightarrow> ''detail:'' @ d
      | KeyData k d \<Rightarrow> ''key:'' @ k @ '',data:'' @ d
      | MarkdownTextContent c \<Rightarrow> ''content:'' @ c)"

definition example_library :: library where
  "example_library =
     \<lparr> GetCurrentTimestampByMill = 1700000000000,
       GetCurrentTimestampByNano = 1700000000000000000,
       rand_Int63 = 5577006791947779410,
       Md5 = (\<lambda>t sendID r. ''md5:'' @ decimal (unat t) @ sendID @ decimal (unat r)),
       StructToJsonString = example_json,
       JsonMarshal = (\<lambda>a. Inr (example_json a)),
       DecodeString =
         (\<lambda>k. if k = ''ZGlyZWN0'' then Inr ''direct''
              else if k = ''Z3JvdXA='' then Inr ''group''
              else if k = ''bm9zZW5kZXI='' then Inr ''nosender''
              else if k = ''bm90IGpzb24='' then Inr ''not json''
              else if k = ''eyJzZW5kSUQiOiJ1MSIsInJlY3ZJRCI6ImJvdCJ9'' then Inr example_key_json
              else Inl ''illegal base64 data at input byte 0''),
       Unmarshal =
         (\<lambda>d. if d = ''direct''
              then Inr \<lparr> KeyMsgData.SendID = ''u1'', KeyMsgData.RecvID = ''bot'',
                         KeyMsgData.GroupID = [] \<rparr>
              else if d = ''group''
              then Inr \<lparr> KeyMsgData.SendID = ''u1'', KeyMsgData.RecvID = ''bot'',
                         KeyMsgData.GroupID = ''g1'' \<rparr>
              else if d = ''nosender''
              then Inr \<lparr> KeyMsgData.SendID = [], KeyMsgData.RecvID = ''bot'',
                         KeyMsgData.GroupID = [] \<rparr>
              else if d = example_key_json
              then Inr \<lparr> KeyMsgData.SendID = ''u1'', KeyMsgData.RecvID = ''bot'',
                         KeyMsgData.GroupID = [] \<rparr>
              else Inl ''invalid character''),
       WeakDecode = (\<lambda>content container. Inr (container\<lparr> decoded := content \<rparr>)),
       GetOptionsByNotification = (\<lambda>cfg. Map.empty) \<rparr>"

definition example_Client :: MsgClient where
  "example_Client =
     \<lparr> SendMsg =
         (\<lambda>log req.
            if MsgData.RecvID (msg_SendMsgReq.MsgData req) = ''u-bad''
            then Inl (Failure ''rpc: recipient refused'')
            else Inr \<lparr> msg_SendMsgResp.ServerMsgID = ''srv'',
                       msg_SendMsgResp.ClientMsgID =
                         MsgData.ClientMsgID (msg_SendMsgReq.MsgData req),
                       msg_SendMsgResp.SendTime = 1700000000005,
                       msg_SendMsgResp.Modify = Some (msg_SendMsgReq.MsgData req) \<rparr>),
       SendSimpleMsg =
         (\<lambda>log req.
            Inr \<lparr> SendSimpleMsgResp.ServerMsgID = ''srv'',
                  SendSimpleMsgResp.ClientMsgID =
                    MsgData.ClientMsgID (SendSimpleMsgReq.MsgData req),
                  SendSimpleMsgResp.SendTime = 1700000000005,
                  SendSimpleMsgResp.Modify = Some (SendSimpleMsgReq.MsgData req) \<rparr>),
       SetSendMsgStatus = (\<lambda>log status. None) \<rparr>"

definition example_userClient :: UserClient where
  "example_userClient =
     \<lparr> GetAllUserIDs =
         (\<lambda>log pageNumber n. if pageNumber = 1 then Inr (replicate 500 ''u'')
                             else Inr [''v'', ''w'']),
       GetNotificationByID = (\<lambda>log sendID. None) \<rparr>"

definition example_env :: env where
  "example_env =
     \<lparr> K = example_constants, lib = example_library, proto = example_proto,
       api = \<lparr> Client = example_Client, userClient = example_userClient,
               validate = (\<lambda>dat. None) \<rparr> \<rparr>"

text \<open>The same a moment later: the generator draws another random number.\<close>

definition example_env_redraw :: env where
  "example_env_redraw =
     example_env\<lparr> lib := example_library\<lparr> rand_Int63 := 8674665223082153551 \<rparr> \<rparr>"


definition example_SendMsg :: SendMsg where
  "example_SendMsg =
     \<lparr> SendMsg.SendID = ''u1'', SendMsg.GroupID = [], SendMsg.SenderNickname = ''nick'',
       SendMsg.SenderFaceURL = [], SendMsg.SenderPlatformID = 1,
       SendMsg.Content = [(''content'', JString ''hi'')], SendMsg.ContentType = 101,
       SendMsg.SessionType = 1, IsOnlineOnly = True, NotOfflinePush = True,
       SendMsg.SendTime = 42, SendMsg.OfflinePushInfo = None, SendMsg.Ex' = [] \<rparr>"

definition example_data :: data where
  "example_data = \<lparr> elem = TextElem, decoded = [(''content'', JString ''hi'')], AtUserList = [] \<rparr>"

definition example_body :: SendSingleMsgReq where
  "example_body =
     \<lparr> SendSingleMsgReq.SendID = ''u9'', SendSingleMsgReq.Content = ''hello'',
       SendSingleMsgReq.OfflinePushInfo = None, SendSingleMsgReq.Ex' = [] \<rparr>"

text \<open>A quick send with the given encoded key and request body.\<close>

definition example_quick :: "string \<Rightarrow> string + SendSingleMsgReq \<Rightarrow> SendSingleMsgReq Context" where
  "example_quick encodedKey body =
     \<lparr> BindJSON = body, IsAdmin = True, CheckAdmin = None, GetOpUserID = ''admin'',
       GetQuery = [''key'' \<mapsto> encodedKey] \<rparr>"

definition example_direct_key :: KeyMsgData where
  "example_direct_key =
     \<lparr> KeyMsgData.SendID = ''u1'', KeyMsgData.RecvID = ''bot'', KeyMsgData.GroupID = [] \<rparr>"

definition example_group_key :: KeyMsgData where
  "example_group_key =
     \<lparr> KeyMsgData.SendID = ''u1'', KeyMsgData.RecvID = ''bot'', KeyMsgData.GroupID = ''g1'' \<rparr>"


definition example_template :: msg_SendMsgReq where
  "example_template = newUserSendMsgReq example_env example_SendMsg example_data"

text \<open>The parameters of \<open>example_SendMsg\<close> with the two toggles as given.\<close>

definition example_toggles :: "bool \<Rightarrow> bool \<Rightarrow> SendMsg" where
  "example_toggles isOnlineOnly notOfflinePush =
     example_SendMsg\<lparr> IsOnlineOnly := isOnlineOnly, NotOfflinePush := notOfflinePush \<rparr>"

text \<open>A batch send of \<open>example_SendMsg\<close>, by an administrator, to the given recipients or to all.\<close>

definition example_batch :: "bool \<Rightarrow> string list \<Rightarrow> BatchSendMsgReq Context" where
  "example_batch isSendAll recvIDs =
     \<lparr> BindJSON = Inr \<lparr> BatchSendMsgReq.SendMsg = example_SendMsg, IsSendAll = isSendAll,
                         RecvIDs = recvIDs \<rparr>,
       IsAdmin = True, CheckAdmin = None, GetOpUserID = ''admin'', GetQuery = Map.empty \<rparr>"

section \<open>Properties\<close>

lemma skip_loop_eq:
  "skip_loop fs skip = skip \<union> JSONName ` {f \<in> set fs. HasJSONName f}"
  by (induction fs arbitrary: skip) auto

lemma descriptor_loop_eq:
  "descriptor_loop skip fs acc =
     acc @ filter (\<lambda>f. HasJSONName f \<and> JSONName f \<notin> skip) fs"
  by (induction fs arbitrary: acc) auto

lemma dom_modify_loop:
  "dom (modify_loop G req rs ds flds) \<subseteq> dom flds \<union> JSONName ` set ds"
proof (induction ds arbitrary: flds)
  case Nil
  then show ?case by simp
next
  case (Cons d ds)
  show ?case
  proof (cases "G req d = G rs d")
    case True
    with Cons.IH [of flds] show ?thesis by auto
  next
    case False
    define v where "v = (if JSONName d = ''content''
         then (case G rs d of VBytes bs \<Rightarrow> VString bs | _ \<Rightarrow> G rs d) else G rs d)"
    have step: "modify_loop G req rs (d # ds) flds =
        modify_loop G req rs ds (flds(JSONName d \<mapsto> v))"
      using False by (simp add: v_def Let_def)
    have "dom (modify_loop G req rs ds (flds(JSONName d \<mapsto> v)))
        \<subseteq> dom (flds(JSONName d \<mapsto> v)) \<union> JSONName ` set ds"
      by (rule Cons.IH)
    then show ?thesis unfolding step by auto
  qed
qed

lemma modify_loop_same:
  "list_all (\<lambda>d. G req d = G rs d) ds \<Longrightarrow> modify_loop G req rs ds flds = flds"
  by (induction ds arbitrary: flds) auto

lemma getMsgDataDescriptor_fst:
  "descriptor_cached p s \<Longrightarrow>
   fst (getMsgDataDescriptor p s) =
     descriptor_loop (skip_loop (SendMsgResp_Fields p) {}) (MsgData_Fields p) []"
  by (auto simp: getMsgDataDescriptor_def descriptor_cached_def Let_def)

lemma getMsgDataDescriptor_cached:
  "descriptor_cached p s \<Longrightarrow> descriptor_cached p (snd (getMsgDataDescriptor p s))"
  by (auto simp: getMsgDataDescriptor_def descriptor_cached_def Let_def)

lemma getModifyFields_Some:
  "getModifyFields p (Some rq) (Some rs) s =
     (let flds = modify_loop (Get p) rq rs (fst (getMsgDataDescriptor p s)) Map.empty
      in (if flds = Map.empty then None else Some flds, snd (getMsgDataDescriptor p s)))"
  by (simp add: getModifyFields_def Let_def split: prod.splits)

lemma getModifyFields_nil_req: "getModifyFields p None rsp s = (None, s)"
  by (simp add: getModifyFields_def)

lemma getModifyFields_nil_resp: "getModifyFields p req None s = (None, s)"
  by (simp add: getModifyFields_def split: option.splits)

lemma getModifyFields_cached:
  "descriptor_cached p s \<Longrightarrow> descriptor_cached p (snd (getModifyFields p req rsp s))"
  by (cases req; cases rsp)
     (simp_all add: getModifyFields_nil_req getModifyFields_nil_resp getModifyFields_Some
        getMsgDataDescriptor_cached Let_def)

lemma reported_subset:
  "reported (fst (getModifyFields p req rsp s)) \<subseteq> JSONName ` set (fst (getMsgDataDescriptor p s))"
proof (cases req)
  case None
  then show ?thesis by (simp add: getModifyFields_def reported_def)
next
  case (Some rq)
  show ?thesis
  proof (cases rsp)
    case None
    then show ?thesis by (simp add: getModifyFields_nil_resp reported_def)
  next
    case (Some rs)
    have "dom (modify_loop (Get p) rq rs (fst (getMsgDataDescriptor p s)) Map.empty)
        \<subseteq> dom (Map.empty :: string \<rightharpoonup> Value) \<union> JSONName ` set (fst (getMsgDataDescriptor p s))"
      by (rule dom_modify_loop)
    with Some \<open>req = Some rq\<close> show ?thesis
      by (auto simp: getModifyFields_Some reported_def Let_def)
  qed
qed

text \<open>
  C6. The diff is reflexive, and an empty diff is the nil map: an acknowledgment that
  echoes every compared field of the sent envelope gives \<open>None\<close>, so does the envelope
  diffed against itself, and no diff at all is ever an empty, non-nil map.
\<close>

theorem getModifyFields_reflexive:
  "(list_all (\<lambda>d. Get p rq d = Get p rs d) (fst (getMsgDataDescriptor p s)) \<longrightarrow>
      fst (getModifyFields p (Some rq) (Some rs) s) = None) \<and>
   fst (getModifyFields p (Some m) (Some m) s) = None \<and>
   fst (getModifyFields p req respModify s) \<noteq> Some Map.empty"
proof (intro conjI impI)
  assume "list_all (\<lambda>d. Get p rq d = Get p rs d) (fst (getMsgDataDescriptor p s))"
  then show "fst (getModifyFields p (Some rq) (Some rs) s) = None"
    by (simp add: getModifyFields_Some modify_loop_same)
next
  have "list_all (\<lambda>d. Get p m d = Get p m d) (fst (getMsgDataDescriptor p s))"
    by (simp add: list_all_iff)
  then show "fst (getModifyFields p (Some m) (Some m) s) = None"
    by (simp add: getModifyFields_Some modify_loop_same)
next
  show "fst (getModifyFields p req respModify s) \<noteq> Some Map.empty"
    by (cases req; cases respModify)
       (simp_all add: getModifyFields_nil_req getModifyFields_nil_resp getModifyFields_Some
          Let_def)
qed

lemma example_descriptors:
  "fst (getMsgDataDescriptor example_proto state_init) =
     map example_field
       [''sendID'', ''recvID'', ''groupID'', ''senderPlatformID'', ''senderNickname'',
        ''senderFaceURL'', ''sessionType'', ''msgFrom'', ''contentType'', ''content'',
        ''createTime'', ''options'', ''offlinePushInfo'', ''atUserIDList'', ''ex'']"
  by (simp add: getMsgDataDescriptor_def state_init_def example_proto_def example_field_def)

theorem getModifyFields_reflexive_witness:
  "list_all (\<lambda>d. Get example_proto example_sent d = Get example_proto example_echo d)
     (fst (getMsgDataDescriptor example_proto state_init)) \<and>
   fst (getModifyFields example_proto (Some example_sent) (Some example_echo) state_init) = None"
proof -
  have h: "list_all (\<lambda>d. Get example_proto example_sent d = Get example_proto example_echo d)
     (fst (getMsgDataDescriptor example_proto state_init))"
    unfolding example_descriptors
    by (simp add: example_proto_def example_field_def example_Get_def example_echo_def)
  from getModifyFields_reflexive
    [of example_proto example_sent example_echo state_init example_sent None None] h
  show ?thesis by blast
qed

lemma getMsgDataDescriptor_fired:
  "msgDataDescriptorOnce s \<Longrightarrow> getMsgDataDescriptor p s = (msgDataDescriptor s, s)"
  by (simp add: getMsgDataDescriptor_def)

lemma getModifyFields_fired:
  "msgDataDescriptorOnce s \<Longrightarrow> snd (getModifyFields p req rsp s) = s"
  by (cases req; cases rsp)
     (simp_all add: getModifyFields_nil_req getModifyFields_nil_resp getModifyFields_Some
        getMsgDataDescriptor_fired Let_def)

lemma descriptor_not_skipped:
  "d \<in> set (descriptor_loop skip fs []) \<Longrightarrow> JSONName d \<notin> skip"
  by (simp add: descriptor_loop_eq)

text \<open>
  C3. In a process whose package variables are consistent with the descriptors (they are
  so initially and after every handler, as the last section shows), a diff never
  reports the JSON name of a field of the acknowledgment structure that has one (the skip
  set of \<^verbatim>\<open>getMsgDataDescriptor\<close>), whatever the two envelopes hold. The skip set is the JSON
  names of the acknowledgment's own fields. Nothing is derived before the first use; the
  first use fires the once and stores the list derived with that skip set; and once it has
  fired, a lookup returns the stored list and a diff leaves the state as it was, whatever
  descriptors \<open>p'\<close> it would be derived from now.
\<close>

theorem exclusion_set_never_reported:
  assumes "descriptor_cached p s"
    and "f \<in> set (SendMsgResp_Fields p)"
    and "HasJSONName f"
  shows "JSONName f \<notin> reported (fst (getModifyFields p req respModify s)) \<and>
    skip_loop (SendMsgResp_Fields p) {} =
      JSONName ` {g. g \<in> set (SendMsgResp_Fields p) \<and> HasJSONName g} \<and>
    \<not> msgDataDescriptorOnce state_init \<and>
    msgDataDescriptorOnce (snd (getMsgDataDescriptor p s)) \<and>
    msgDataDescriptor (snd (getMsgDataDescriptor p s)) =
      descriptor_loop (skip_loop (SendMsgResp_Fields p) {}) (MsgData_Fields p) [] \<and>
    (msgDataDescriptorOnce s \<longrightarrow>
       getMsgDataDescriptor p' s = (msgDataDescriptor s, s) \<and>
       snd (getModifyFields p' req' respModify' s) = s)"
proof -
  let ?skip = "skip_loop (SendMsgResp_Fields p) {}"
  let ?D = "descriptor_loop ?skip (MsgData_Fields p) []"
  have skip: "?skip = JSONName ` {g. g \<in> set (SendMsgResp_Fields p) \<and> HasJSONName g}"
    by (simp add: skip_loop_eq)
  have "JSONName f \<in> ?skip"
    using assms(2,3) unfolding skip by blast
  then have "JSONName f \<notin> JSONName ` set ?D"
    by (auto dest: descriptor_not_skipped)
  moreover have "reported (fst (getModifyFields p req respModify s)) \<subseteq> JSONName ` set ?D"
    using reported_subset [of p req respModify s] getMsgDataDescriptor_fst [OF assms(1)]
    by simp
  ultimately have 1: "JSONName f \<notin> reported (fst (getModifyFields p req respModify s))"
    by blast
  have 2: "\<not> msgDataDescriptorOnce state_init"
    by (simp add: state_init_def)
  have 3: "msgDataDescriptorOnce (snd (getMsgDataDescriptor p s))"
    by (simp add: getMsgDataDescriptor_def Let_def)
  have 4: "msgDataDescriptor (snd (getMsgDataDescriptor p s)) = ?D"
    using assms(1) by (auto simp: getMsgDataDescriptor_def descriptor_cached_def Let_def)
  have 5: "msgDataDescriptorOnce s \<longrightarrow>
       getMsgDataDescriptor p' s = (msgDataDescriptor s, s) \<and>
       snd (getModifyFields p' req' respModify' s) = s"
    by (simp add: getMsgDataDescriptor_fired getModifyFields_fired)
  from 1 skip 2 3 4 5 show ?thesis by blast
qed

lemma example_warm_eq:
  "example_warm =
     \<lparr> msgDataDescriptor = map example_field
         [''sendID'', ''recvID'', ''groupID'', ''senderPlatformID'', ''senderNickname'',
          ''senderFaceURL'', ''sessionType'', ''msgFrom'', ''contentType'', ''content'',
          ''createTime'', ''options'', ''offlinePushInfo'', ''atUserIDList'', ''ex''],
       msgDataDescriptorOnce = True, calls = [] \<rparr>"
  by (simp add: example_warm_def getMsgDataDescriptor_def state_init_def example_proto_def
      example_field_def)

lemma example_warm_cached: "descriptor_cached example_proto example_warm"
  unfolding example_warm_def
  by (rule getMsgDataDescriptor_cached) (simp add: descriptor_cached_def state_init_def)

lemma example_rewritten_diff:
  "fst (getModifyFields example_proto (Some example_sent) (Some example_rewritten) example_warm) =
     Some [''content'' \<mapsto> VString ''h***o'']"
  by (simp add: getModifyFields_Some getMsgDataDescriptor_fired example_warm_eq Let_def
      example_proto_def example_field_def example_Get_def example_rewritten_def example_echo_def
      example_sent_def MsgData_zero_def)

theorem exclusion_set_never_reported_witness:
  "descriptor_cached example_proto example_warm \<and>
   example_field ''clientMsgID'' \<in> set (SendMsgResp_Fields example_proto) \<and>
   HasJSONName (example_field ''clientMsgID'') \<and>
   msgDataDescriptorOnce example_warm \<and>
   Get example_proto example_sent (example_field ''clientMsgID'') \<noteq>
     Get example_proto example_rewritten (example_field ''clientMsgID'') \<and>
   ''clientMsgID'' \<notin> reported (fst (getModifyFields example_proto
       (Some example_sent) (Some example_rewritten) example_warm)) \<and>
   fst (getModifyFields example_proto (Some example_sent) (Some example_rewritten) example_warm) =
     Some [''content'' \<mapsto> VString ''h***o''] \<and>
   snd (getModifyFields example_proto (Some example_sent) (Some example_rewritten) example_warm) =
     example_warm"
proof -
  have a: "example_field ''clientMsgID'' \<in> set (SendMsgResp_Fields example_proto)"
    by (simp add: example_proto_def)
  have b: "HasJSONName (example_field ''clientMsgID'')"
    by (simp add: example_field_def)
  have c: "msgDataDescriptorOnce example_warm"
    by (simp add: example_warm_eq)
  have d: "Get example_proto example_sent (example_field ''clientMsgID'') \<noteq>
     Get example_proto example_rewritten (example_field ''clientMsgID'')"
    by (simp add: example_proto_def example_field_def example_Get_def example_rewritten_def
        example_echo_def example_sent_def MsgData_zero_def)
  have n: "JSONName (example_field ''clientMsgID'') = ''clientMsgID''"
    by (simp add: example_field_def)
  from exclusion_set_never_reported [OF example_warm_cached a b,
      of "Some example_sent" "Some example_rewritten" example_proto
         "Some example_sent" "Some example_rewritten"]
    example_warm_cached a b c d example_rewritten_diff
  show ?thesis unfolding n by blast
qed

section \<open>The envelope builder\<close>

lemma SetOptions_apply:
  "SetOptions k (Some options) b =
     Some (options(IsHistory k \<mapsto> b, IsPersistent k \<mapsto> b, IsSenderSync k \<mapsto> b,
       IsConversationUpdate k \<mapsto> b))"
  "SetOptions k None b = None"
  by (simp_all add: SetOptions_def SetSwitchFromOptions_def)

lemma SetSwitchFromOptions_apply:
  "SetSwitchFromOptions (Some options) key b = Some (options(key \<mapsto> b))"
  "SetSwitchFromOptions None key b = None"
  by (simp_all add: SetSwitchFromOptions_def)

lemma newUserSendMsgReq_Options:
  "MsgData.Options (msg_SendMsgReq.MsgData (newUserSendMsgReq e params dat)) =
     assign_Options
       (let options = (if IsOnlineOnly params then SetOptions (K e) (Some Map.empty) False
                       else Some Map.empty)
        in if NotOfflinePush params then SetSwitchFromOptions options (IsOfflinePush (K e)) False
           else options)"
  by (simp add: newUserSendMsgReq_def Let_def split: prod.splits)

lemma newUserSendMsgReq_Options_eq:
  "MsgData.Options (msg_SendMsgReq.MsgData (newUserSendMsgReq e params dat)) =
     (if IsOnlineOnly params then
        if NotOfflinePush params then
          [IsHistory (K e) \<mapsto> False, IsPersistent (K e) \<mapsto> False, IsSenderSync (K e) \<mapsto> False,
           IsConversationUpdate (K e) \<mapsto> False, IsOfflinePush (K e) \<mapsto> False]
        else
          [IsHistory (K e) \<mapsto> False, IsPersistent (K e) \<mapsto> False, IsSenderSync (K e) \<mapsto> False,
           IsConversationUpdate (K e) \<mapsto> False]
      else if NotOfflinePush params then [IsOfflinePush (K e) \<mapsto> False]
      else Map.empty)"
  by (simp add: newUserSendMsgReq_Options SetOptions_apply SetSwitchFromOptions_apply
      assign_Options_def)

text \<open>
  C5. The generic setter with \<open>False\<close> writes \<open>False\<close> into the four persistence switches of
  every option set it can write to, and into no other entry, and they stay \<open>False\<close> when the
  offline-push switch is forced afterwards; forcing the offline-push switch writes that
  entry and no other. Go's nil map is the one option set that cannot be written to: the
  caller's map is nil after either call. The builder starts from a map of its own, without
  entries, so its option set is decided by the two toggles alone, whatever the other
  parameters are: \<^verbatim>\<open>IsOnlineOnly\<close> forces the four persistence switches to \<open>False\<close>,
  \<^verbatim>\<open>NotOfflinePush\<close> forces the offline-push switch to \<open>False\<close>, and each toggle leaves
  every switch that is not its own unset: without \<^verbatim>\<open>IsOnlineOnly\<close> no switch but the
  offline-push one has an entry, and without \<^verbatim>\<open>NotOfflinePush\<close> no switch but the four has.
\<close>

theorem delivery_option_policy:
  "(\<forall>key \<in> {IsHistory k, IsPersistent k, IsSenderSync k, IsConversationUpdate k}.
      assign_Options (SetOptions k (Some options) False) key = Some False \<and>
      assign_Options (SetSwitchFromOptions (SetOptions k (Some options) False)
        (IsOfflinePush k) False) key = Some False) \<and>
   (\<forall>key. key \<notin> {IsHistory k, IsPersistent k, IsSenderSync k, IsConversationUpdate k} \<longrightarrow>
      assign_Options (SetOptions k (Some options) False) key = options key) \<and>
   assign_Options (SetSwitchFromOptions (Some options) (IsOfflinePush k) False) (IsOfflinePush k) =
     Some False \<and>
   (\<forall>key. key \<noteq> IsOfflinePush k \<longrightarrow>
      assign_Options (SetSwitchFromOptions (Some options) (IsOfflinePush k) False) key =
        options key) \<and>
   SetOptions k None False = None \<and>
   SetSwitchFromOptions None (IsOfflinePush k) False = None \<and>
   MsgData.Options (msg_SendMsgReq.MsgData (newUserSendMsgReq e params dat)) =
     (if IsOnlineOnly params then
        if NotOfflinePush params then
          [IsHistory (K e) \<mapsto> False, IsPersistent (K e) \<mapsto> False, IsSenderSync (K e) \<mapsto> False,
           IsConversationUpdate (K e) \<mapsto> False, IsOfflinePush (K e) \<mapsto> False]
        else
          [IsHistory (K e) \<mapsto> False, IsPersistent (K e) \<mapsto> False, IsSenderSync (K e) \<mapsto> False,
           IsConversationUpdate (K e) \<mapsto> False]
      else if NotOfflinePush params then [IsOfflinePush (K e) \<mapsto> False]
      else Map.empty) \<and>
   (IsOnlineOnly params \<longrightarrow>
      (\<forall>key \<in> {IsHistory (K e), IsPersistent (K e), IsSenderSync (K e),
                 IsConversationUpdate (K e)}.
         MsgData.Options (msg_SendMsgReq.MsgData (newUserSendMsgReq e params dat)) key =
           Some False)) \<and>
   (NotOfflinePush params \<longrightarrow>
      MsgData.Options (msg_SendMsgReq.MsgData (newUserSendMsgReq e params dat))
        (IsOfflinePush (K e)) = Some False) \<and>
   (\<not> IsOnlineOnly params \<longrightarrow>
      (\<forall>key. key \<noteq> IsOfflinePush (K e) \<longrightarrow>
         MsgData.Options (msg_SendMsgReq.MsgData (newUserSendMsgReq e params dat)) key = None)) \<and>
   (\<not> NotOfflinePush params \<longrightarrow>
      (\<forall>key. key \<notin> {IsHistory (K e), IsPersistent (K e), IsSenderSync (K e),
                 IsConversationUpdate (K e)} \<longrightarrow>
         MsgData.Options (msg_SendMsgReq.MsgData (newUserSendMsgReq e params dat)) key = None))"
proof -
  have setter: "\<forall>key \<in> {IsHistory k, IsPersistent k, IsSenderSync k, IsConversationUpdate k}.
      assign_Options (SetOptions k (Some options) False) key = Some False \<and>
      assign_Options (SetSwitchFromOptions (SetOptions k (Some options) False)
        (IsOfflinePush k) False) key = Some False"
    by (simp add: SetOptions_apply SetSwitchFromOptions_apply assign_Options_def)
  have others: "\<forall>key. key \<notin> {IsHistory k, IsPersistent k, IsSenderSync k,
        IsConversationUpdate k} \<longrightarrow>
      assign_Options (SetOptions k (Some options) False) key = options key"
    by (simp add: SetOptions_apply assign_Options_def)
  have push: "assign_Options (SetSwitchFromOptions (Some options) (IsOfflinePush k) False)
      (IsOfflinePush k) = Some False"
    "\<forall>key. key \<noteq> IsOfflinePush k \<longrightarrow>
      assign_Options (SetSwitchFromOptions (Some options) (IsOfflinePush k) False) key =
        options key"
    by (simp_all add: SetSwitchFromOptions_apply assign_Options_def)
  have nil: "SetOptions k None False = None"
    "SetSwitchFromOptions None (IsOfflinePush k) False = None"
    by (simp_all add: SetOptions_apply SetSwitchFromOptions_apply)
  note eq = newUserSendMsgReq_Options_eq [of e params dat]
  have b1: "IsOnlineOnly params \<longrightarrow>
      (\<forall>key \<in> {IsHistory (K e), IsPersistent (K e), IsSenderSync (K e),
                 IsConversationUpdate (K e)}.
         MsgData.Options (msg_SendMsgReq.MsgData (newUserSendMsgReq e params dat)) key =
           Some False)"
    unfolding eq by simp
  have b2: "NotOfflinePush params \<longrightarrow>
      MsgData.Options (msg_SendMsgReq.MsgData (newUserSendMsgReq e params dat))
        (IsOfflinePush (K e)) = Some False"
    unfolding eq by simp
  have b3: "\<not> IsOnlineOnly params \<longrightarrow>
      (\<forall>key. key \<noteq> IsOfflinePush (K e) \<longrightarrow>
         MsgData.Options (msg_SendMsgReq.MsgData (newUserSendMsgReq e params dat)) key = None)"
    unfolding eq by simp
  have b4: "\<not> NotOfflinePush params \<longrightarrow>
      (\<forall>key. key \<notin> {IsHistory (K e), IsPersistent (K e), IsSenderSync (K e),
                 IsConversationUpdate (K e)} \<longrightarrow>
         MsgData.Options (msg_SendMsgReq.MsgData (newUserSendMsgReq e params dat)) key = None)"
    unfolding eq by simp
  from setter others push nil eq b1 b2 b3 b4 show ?thesis
    by (intro conjI)
qed

lemma example_toggles_parts:
  "IsOnlineOnly (example_toggles a b) = a"
  "NotOfflinePush (example_toggles a b) = b"
  by (simp_all add: example_toggles_def)

lemma example_switches:
  "IsHistory (K example_env) = ''history''"
  "IsPersistent (K example_env) = ''persistent''"
  "IsSenderSync (K example_env) = ''senderSync''"
  "IsConversationUpdate (K example_env) = ''conversationUpdate''"
  "IsOfflinePush (K example_env) = ''offlinePush''"
  by (simp_all add: example_env_def example_constants_def)

theorem delivery_option_policy_witness:
  "MsgData.Options (msg_SendMsgReq.MsgData
      (newUserSendMsgReq example_env (example_toggles True True) example_data)) =
     [''history'' \<mapsto> False, ''persistent'' \<mapsto> False, ''senderSync'' \<mapsto> False,
      ''conversationUpdate'' \<mapsto> False, ''offlinePush'' \<mapsto> False] \<and>
   MsgData.Options (msg_SendMsgReq.MsgData
      (newUserSendMsgReq example_env (example_toggles True False) example_data)) =
     [''history'' \<mapsto> False, ''persistent'' \<mapsto> False, ''senderSync'' \<mapsto> False,
      ''conversationUpdate'' \<mapsto> False] \<and>
   MsgData.Options (msg_SendMsgReq.MsgData
      (newUserSendMsgReq example_env (example_toggles False True) example_data)) =
     [''offlinePush'' \<mapsto> False] \<and>
   MsgData.Options (msg_SendMsgReq.MsgData
      (newUserSendMsgReq example_env (example_toggles False False) example_data)) = Map.empty \<and>
   MsgData.Options (msg_SendMsgReq.MsgData
      (newUserSendMsgReq example_env (example_toggles True False) example_data)) ''history'' =
     Some False \<and>
   MsgData.Options (msg_SendMsgReq.MsgData
      (newUserSendMsgReq example_env (example_toggles True False) example_data)) ''offlinePush'' =
     None \<and>
   MsgData.Options (msg_SendMsgReq.MsgData
      (newUserSendMsgReq example_env (example_toggles False True) example_data)) ''offlinePush'' =
     Some False \<and>
   MsgData.Options (msg_SendMsgReq.MsgData
      (newUserSendMsgReq example_env (example_toggles False True) example_data)) ''history'' =
     None \<and>
   assign_Options (SetOptions example_constants (Some [''history'' \<mapsto> True, ''x'' \<mapsto> True]) False)
     ''history'' = Some False \<and>
   assign_Options (SetOptions example_constants (Some [''history'' \<mapsto> True, ''x'' \<mapsto> True]) False)
     ''x'' = Some True"
proof -
  let ?o = "\<lambda>a b. MsgData.Options (msg_SendMsgReq.MsgData
      (newUserSendMsgReq example_env (example_toggles a b) example_data))"
  note T = delivery_option_policy [of example_constants "[''history'' \<mapsto> True, ''x'' \<mapsto> True]"
      example_env]
  note S = T [THEN conjunct1]
  note U = T [THEN conjunct2, THEN conjunct1]
  note E = T [THEN conjunct2, THEN conjunct2, THEN conjunct2, THEN conjunct2, THEN conjunct2,
      THEN conjunct2, THEN conjunct1]
  note B = T [THEN conjunct2, THEN conjunct2, THEN conjunct2, THEN conjunct2, THEN conjunct2,
      THEN conjunct2, THEN conjunct2]
  have tt: "?o True True =
     [''history'' \<mapsto> False, ''persistent'' \<mapsto> False, ''senderSync'' \<mapsto> False,
      ''conversationUpdate'' \<mapsto> False, ''offlinePush'' \<mapsto> False]"
    using E [of "example_toggles True True" example_data]
    by (simp add: example_toggles_parts example_switches)
  have tf: "?o True False =
     [''history'' \<mapsto> False, ''persistent'' \<mapsto> False, ''senderSync'' \<mapsto> False,
      ''conversationUpdate'' \<mapsto> False]"
    using E [of "example_toggles True False" example_data]
    by (simp add: example_toggles_parts example_switches)
  have ft: "?o False True = [''offlinePush'' \<mapsto> False]"
    using E [of "example_toggles False True" example_data]
    by (simp add: example_toggles_parts example_switches)
  have ff: "?o False False = Map.empty"
    using E [of "example_toggles False False" example_data]
    by (simp add: example_toggles_parts example_switches)
  have on: "IsOnlineOnly (example_toggles True False)"
    and npush: "\<not> NotOfflinePush (example_toggles True False)"
    and push: "NotOfflinePush (example_toggles False True)"
    and non: "\<not> IsOnlineOnly (example_toggles False True)"
    by (simp_all add: example_toggles_parts)
  have "\<forall>key \<in> {IsHistory (K example_env), IsPersistent (K example_env),
      IsSenderSync (K example_env), IsConversationUpdate (K example_env)}.
      ?o True False key = Some False"
    by (rule B [of "example_toggles True False" example_data, THEN conjunct1, THEN mp, OF on])
  then have 1: "?o True False ''history'' = Some False"
    by (simp add: example_switches)
  have "\<forall>key. key \<notin> {IsHistory (K example_env), IsPersistent (K example_env),
      IsSenderSync (K example_env), IsConversationUpdate (K example_env)} \<longrightarrow>
      ?o True False key = None"
    by (rule B [of "example_toggles True False" example_data, THEN conjunct2, THEN conjunct2,
          THEN conjunct2, THEN mp, OF npush])
  then have 2: "?o True False ''offlinePush'' = None"
    by (simp add: example_switches)
  have 3: "?o False True ''offlinePush'' = Some False"
    using B [of "example_toggles False True" example_data, THEN conjunct2, THEN conjunct1,
        THEN mp, OF push]
    by (simp add: example_switches)
  have "\<forall>key. key \<noteq> IsOfflinePush (K example_env) \<longrightarrow> ?o False True key = None"
    by (rule B [of "example_toggles False True" example_data, THEN conjunct2, THEN conjunct2,
          THEN conjunct1, THEN mp, OF non])
  then have 4: "?o False True ''history'' = None"
    by (simp add: example_switches)
  have k: "IsHistory example_constants = ''history''"
    "IsPersistent example_constants = ''persistent''"
    "IsSenderSync example_constants = ''senderSync''"
    "IsConversationUpdate example_constants = ''conversationUpdate''"
    by (simp_all add: example_constants_def)
  from S have 5: "assign_Options (SetOptions example_constants
      (Some [''history'' \<mapsto> True, ''x'' \<mapsto> True]) False) ''history'' = Some False"
    by (simp add: k)
  from U have 6: "assign_Options (SetOptions example_constants
      (Some [''history'' \<mapsto> True, ''x'' \<mapsto> True]) False) ''x'' = Some True"
    by (simp add: k)
  from tt tf ft ff 1 2 3 4 5 6 show ?thesis
    by (intro conjI)
qed

lemma decode_build_Inr:
  "decode_build e req container s = (Inr r, s') \<Longrightarrow>
   \<exists>dat. r = newUserSendMsgReq e req dat"
  by (auto simp: decode_build_def split: sum.splits option.splits)

lemma decode_build_state: "snd (decode_build e req container s) = s"
  by (simp add: decode_build_def split: sum.splits option.splits)

lemma getSendMsgReq_Inr:
  assumes "getSendMsgReq e req s = (Inr r, s')"
  shows "\<exists>dat. r = newUserSendMsgReq e req dat \<or>
               r = newUserSendMsgReq e (req\<lparr> SendMsg.SessionType := NotificationChatType (K e) \<rparr>) dat"
proof -
  have "\<exists>container s0 req'. decode_build e req' container s0 = (Inr r, s') \<and>
      (req' = req \<or> req' = req\<lparr> SendMsg.SessionType := NotificationChatType (K e) \<rparr>)"
    using assms unfolding getSendMsgReq_def Let_def
    by (auto split: if_splits option.splits)
  then show ?thesis
    by (auto dest: decode_build_Inr)
qed

lemma newUserSendMsgReq_fields:
  "MsgData.ClientMsgID (msg_SendMsgReq.MsgData (newUserSendMsgReq e params dat)) =
     GetMsgIDByMD5 (lib e) (SendMsg.SendID params)"
  "MsgData.SendID (msg_SendMsgReq.MsgData (newUserSendMsgReq e params dat)) = SendMsg.SendID params"
  "CreateTime (msg_SendMsgReq.MsgData (newUserSendMsgReq e params dat)) =
     GetCurrentTimestampByMill (lib e)"
  "MsgData.SendTime (msg_SendMsgReq.MsgData (newUserSendMsgReq e params dat)) =
     SendMsg.SendTime params"
  by (simp_all add: newUserSendMsgReq_def Let_def split: prod.splits)

lemma getSendMsgReq_fields:
  assumes "getSendMsgReq e req s = (Inr r, s')"
  shows "MsgData.ClientMsgID (msg_SendMsgReq.MsgData r) = GetMsgIDByMD5 (lib e) (SendMsg.SendID req)"
    and "MsgData.SendID (msg_SendMsgReq.MsgData r) = SendMsg.SendID req"
    and "CreateTime (msg_SendMsgReq.MsgData r) = GetCurrentTimestampByMill (lib e)"
    and "MsgData.SendTime (msg_SendMsgReq.MsgData r) = SendMsg.SendTime req"
  using getSendMsgReq_Inr [OF assms] by (auto simp: newUserSendMsgReq_fields)

lemma set_RecvID_fields:
  "MsgData.ClientMsgID (msg_SendMsgReq.MsgData (set_RecvID r x)) =
     MsgData.ClientMsgID (msg_SendMsgReq.MsgData r)"
  "MsgData.SendID (msg_SendMsgReq.MsgData (set_RecvID r x)) =
     MsgData.SendID (msg_SendMsgReq.MsgData r)"
  "CreateTime (msg_SendMsgReq.MsgData (set_RecvID r x)) = CreateTime (msg_SendMsgReq.MsgData r)"
  "MsgData.SendTime (msg_SendMsgReq.MsgData (set_RecvID r x)) =
     MsgData.SendTime (msg_SendMsgReq.MsgData r)"
  "MsgData.RecvID (msg_SendMsgReq.MsgData (set_RecvID r x)) = x"
  by (simp_all add: set_RecvID_def)

lemma simpleMsgData_fields:
  "MsgData.ClientMsgID (simpleMsgData e sendID recvID k st content req) =
     GetMsgIDByMD5 (lib e) sendID"
  "MsgData.SendID (simpleMsgData e sendID recvID k st content req) = sendID"
  "MsgData.RecvID (simpleMsgData e sendID recvID k st content req) = recvID"
  "CreateTime (simpleMsgData e sendID recvID k st content req) = 0"
  "MsgData.SendTime (simpleMsgData e sendID recvID k st content req) = 0"
  by (simp_all add: simpleMsgData_def MsgData_zero_def)

lemma businessNotificationReq_fields:
  "MsgData.ClientMsgID (msg_SendMsgReq.MsgData (businessNotificationReq e op breq st rl)) =
     GetMsgIDByMD5 (lib e) op"
  "MsgData.SendID (msg_SendMsgReq.MsgData (businessNotificationReq e op breq st rl)) =
     SendUserID breq"
  "CreateTime (msg_SendMsgReq.MsgData (businessNotificationReq e op breq st rl)) =
     GetCurrentTimestampByMill (lib e)"
  "MsgData.SendTime (msg_SendMsgReq.MsgData (businessNotificationReq e op breq st rl)) = 0"
  by (simp_all add: businessNotificationReq_def MsgData_zero_def)

section \<open>Single send and quick send\<close>

lemma getMsgDataDescriptor_calls: "calls (snd (getMsgDataDescriptor p s)) = calls s"
  by (simp add: getMsgDataDescriptor_def Let_def)

lemma getModifyFields_calls: "calls (snd (getModifyFields p a b s)) = calls s"
  by (cases a; cases b)
     (simp_all add: getModifyFields_nil_req getModifyFields_nil_resp getModifyFields_Some
        getMsgDataDescriptor_calls Let_def)

lemma ginRespSendMsg_calls: "calls (snd (ginRespSendMsg e r resp s)) = calls s"
  by (simp add: ginRespSendMsg_def Let_def getModifyFields_calls split: prod.splits)
     (metis getModifyFields_calls snd_conv)


lemma SendSimpleMessage_bad_encoding:
  "GetQuery c (webhook_Key (K e)) = Some encodedKey \<Longrightarrow>
   DecodeString (lib e) encodedKey = Inl err \<Longrightarrow>
   SendSimpleMessage e c s = (Inl (WithDetail ErrArgs err), s)"
  by (simp add: SendSimpleMessage_def)

lemma SendSimpleMessage_bad_body:
  "GetQuery c (webhook_Key (K e)) = Some encodedKey \<Longrightarrow>
   DecodeString (lib e) encodedKey = Inr decodedData \<Longrightarrow>
   BindJSON c = Inl err \<Longrightarrow>
   SendSimpleMessage e c s = (Inl (WithDetail ErrArgs err), s)"
  by (simp add: SendSimpleMessage_def)

lemma SendSimpleMessage_bad_structure:
  "GetQuery c (webhook_Key (K e)) = Some encodedKey \<Longrightarrow>
   DecodeString (lib e) encodedKey = Inr decodedData \<Longrightarrow>
   BindJSON c = Inr req \<Longrightarrow>
   Unmarshal (lib e) decodedData = Inl err \<Longrightarrow>
   SendSimpleMessage e c s = (Inl (WithDetail ErrArgs err), s)"
  by (simp add: SendSimpleMessage_def)

lemma SendSimpleMessage_no_sender:
  "GetQuery c (webhook_Key (K e)) = Some encodedKey \<Longrightarrow>
   DecodeString (lib e) encodedKey = Inr decodedData \<Longrightarrow>
   BindJSON c = Inr req \<Longrightarrow>
   Unmarshal (lib e) decodedData = Inr keyMsgData \<Longrightarrow>
   KeyMsgData.SendID keyMsgData = [] \<Longrightarrow>
   SendSimpleMessage e c s = (Inl (WithDetail ErrArgs ''missing recvID or GroupID''), s)"
  by (simp add: SendSimpleMessage_def split: prod.splits)

lemma SendSimpleMessage_no_sendID:
  "GetQuery c (webhook_Key (K e)) = Some encodedKey \<Longrightarrow>
   DecodeString (lib e) encodedKey = Inr decodedData \<Longrightarrow>
   BindJSON c = Inr req \<Longrightarrow>
   Unmarshal (lib e) decodedData = Inr keyMsgData \<Longrightarrow>
   KeyMsgData.SendID keyMsgData \<noteq> [] \<Longrightarrow>
   (if KeyMsgData.GroupID keyMsgData \<noteq> [] then SendSingleMsgReq.SendID req
    else KeyMsgData.RecvID keyMsgData) = [] \<Longrightarrow>
   SendSimpleMessage e c s = (Inl (WithDetail ErrArgs ''missing sendID''), s)"
  by (simp add: SendSimpleMessage_def routing_def split: prod.splits if_splits)

lemma SendSimpleMessage_submit:
  "GetQuery c (webhook_Key (K e)) = Some encodedKey \<Longrightarrow>
   DecodeString (lib e) encodedKey = Inr decodedData \<Longrightarrow>
   BindJSON c = Inr req \<Longrightarrow>
   Unmarshal (lib e) decodedData = Inr keyMsgData \<Longrightarrow>
   KeyMsgData.SendID keyMsgData \<noteq> [] \<Longrightarrow>
   routing e keyMsgData req = (sessionType, sendID, recvID) \<Longrightarrow>
   sendID \<noteq> [] \<Longrightarrow>
   SendSimpleMessage e c s = submit_simple e keyMsgData req sessionType sendID recvID s"
  by (simp add: SendSimpleMessage_def)

lemma submit_simple_calls:
  "JsonMarshal (lib e) (MarkdownTextContent (SendSingleMsgReq.Content req)) = Inr content \<Longrightarrow>
   \<exists>rest. calls (snd (submit_simple e k req st sendID recvID s)) =
     calls s @ CallSendSimpleMsg
        \<lparr> SendSimpleMsgReq.MsgData = simpleMsgData e sendID recvID k st content req \<rparr> # rest"
  by (auto simp: submit_simple_def Let_def ginRespSendMsg_calls split: sum.splits option.splits)





lemma submit_simple_submitted:
  "JsonMarshal (lib e) (MarkdownTextContent (SendSingleMsgReq.Content req)) = Inr content \<Longrightarrow>
   sendReq = \<lparr> SendSimpleMsgReq.MsgData = simpleMsgData e sendID recvID k st content req \<rparr> \<Longrightarrow>
   SendSimpleMsg (Client (api e)) (calls s) sendReq = Inr respPb \<Longrightarrow>
   calls (snd (submit_simple e k req st sendID recvID s)) =
     calls s @ [CallSendSimpleMsg sendReq,
       CallSetSendMsgStatus (word_of_int (MsgSendSuccessed (K e)))]"
  by (auto simp: submit_simple_def Let_def ginRespSendMsg_calls split: option.splits)







lemma routing_direct:
  "KeyMsgData.GroupID k = [] \<Longrightarrow>
   routing e k req = (SingleChatType (K e), KeyMsgData.RecvID k, KeyMsgData.SendID k)"
  by (simp add: routing_def)

lemma routing_group:
  "KeyMsgData.GroupID k \<noteq> [] \<Longrightarrow>
   routing e k req = (ReadGroupChatType (K e), SendSingleMsgReq.SendID req, [])"
  by (simp add: routing_def)

lemma simpleMsgData_GroupID:
  "MsgData.GroupID (simpleMsgData e sendID recvID k st content req) = KeyMsgData.GroupID k"
  "MsgData.SessionType (simpleMsgData e sendID recvID k st content req) = st"
  by (simp_all add: simpleMsgData_def MsgData_zero_def)

text \<open>
  C9. In a quick send that gets as far as building the envelope, the first remote call is
  the submission of that envelope. With an empty group ID in the key, its sender is the
  key's \<^verbatim>\<open>RecvID\<close> and its recipient the key's \<^verbatim>\<open>SendID\<close>; with a group ID, its sender is
  the \<^verbatim>\<open>SendID\<close> of the request body and its recipient is empty.
\<close>

theorem quick_send_roles:
  "GetQuery c (webhook_Key (K e)) = Some encodedKey \<and>
   DecodeString (lib e) encodedKey = Inr decodedData \<and>
   BindJSON c = Inr req \<and>
   Unmarshal (lib e) decodedData = Inr keyMsgData \<and>
   KeyMsgData.SendID keyMsgData \<noteq> [] \<and>
   JsonMarshal (lib e) (MarkdownTextContent (SendSingleMsgReq.Content req)) = Inr content \<longrightarrow>
     (KeyMsgData.GroupID keyMsgData = [] \<and> KeyMsgData.RecvID keyMsgData \<noteq> [] \<longrightarrow>
        (\<exists>msgData rest.
           calls (snd (SendSimpleMessage e c s)) =
             calls s @ CallSendSimpleMsg \<lparr> SendSimpleMsgReq.MsgData = msgData \<rparr> # rest \<and>
           MsgData.SendID msgData = KeyMsgData.RecvID keyMsgData \<and>
           MsgData.RecvID msgData = KeyMsgData.SendID keyMsgData \<and>
           MsgData.GroupID msgData = [] \<and>
           MsgData.SessionType msgData = SingleChatType (K e))) \<and>
     (KeyMsgData.GroupID keyMsgData \<noteq> [] \<and> SendSingleMsgReq.SendID req \<noteq> [] \<longrightarrow>
        (\<exists>msgData rest.
           calls (snd (SendSimpleMessage e c s)) =
             calls s @ CallSendSimpleMsg \<lparr> SendSimpleMsgReq.MsgData = msgData \<rparr> # rest \<and>
           MsgData.SendID msgData = SendSingleMsgReq.SendID req \<and>
           MsgData.RecvID msgData = [] \<and>
           MsgData.GroupID msgData = KeyMsgData.GroupID keyMsgData \<and>
           MsgData.SessionType msgData = ReadGroupChatType (K e)))"
proof (intro impI conjI; elim conjE)
  assume a: "GetQuery c (webhook_Key (K e)) = Some encodedKey"
    "DecodeString (lib e) encodedKey = Inr decodedData"
    "BindJSON c = Inr req"
    "Unmarshal (lib e) decodedData = Inr keyMsgData"
    "KeyMsgData.SendID keyMsgData \<noteq> []"
  assume m: "JsonMarshal (lib e) (MarkdownTextContent (SendSingleMsgReq.Content req)) = Inr content"
  assume d: "KeyMsgData.GroupID keyMsgData = []" "KeyMsgData.RecvID keyMsgData \<noteq> []"
  let ?m = "simpleMsgData e (KeyMsgData.RecvID keyMsgData) (KeyMsgData.SendID keyMsgData)
      keyMsgData (SingleChatType (K e)) content req"
  have eq: "SendSimpleMessage e c s =
      submit_simple e keyMsgData req (SingleChatType (K e)) (KeyMsgData.RecvID keyMsgData)
        (KeyMsgData.SendID keyMsgData) s"
    by (rule SendSimpleMessage_submit [OF a routing_direct [OF d(1)] d(2)])
  obtain rest where "calls (snd (SendSimpleMessage e c s)) =
      calls s @ CallSendSimpleMsg \<lparr> SendSimpleMsgReq.MsgData = ?m \<rparr> # rest"
    unfolding eq using submit_simple_calls [OF m] by blast
  moreover have "MsgData.SendID ?m = KeyMsgData.RecvID keyMsgData"
    "MsgData.RecvID ?m = KeyMsgData.SendID keyMsgData" "MsgData.GroupID ?m = []"
    "MsgData.SessionType ?m = SingleChatType (K e)"
    by (simp_all add: simpleMsgData_fields simpleMsgData_GroupID d)
  ultimately show "\<exists>msgData rest.
      calls (snd (SendSimpleMessage e c s)) =
        calls s @ CallSendSimpleMsg \<lparr> SendSimpleMsgReq.MsgData = msgData \<rparr> # rest \<and>
      MsgData.SendID msgData = KeyMsgData.RecvID keyMsgData \<and>
      MsgData.RecvID msgData = KeyMsgData.SendID keyMsgData \<and>
      MsgData.GroupID msgData = [] \<and>
      MsgData.SessionType msgData = SingleChatType (K e)"
    by blast
next
  assume a: "GetQuery c (webhook_Key (K e)) = Some encodedKey"
    "DecodeString (lib e) encodedKey = Inr decodedData"
    "BindJSON c = Inr req"
    "Unmarshal (lib e) decodedData = Inr keyMsgData"
    "KeyMsgData.SendID keyMsgData \<noteq> []"
  assume m: "JsonMarshal (lib e) (MarkdownTextContent (SendSingleMsgReq.Content req)) = Inr content"
  assume g: "KeyMsgData.GroupID keyMsgData \<noteq> []" "SendSingleMsgReq.SendID req \<noteq> []"
  let ?m = "simpleMsgData e (SendSingleMsgReq.SendID req) [] keyMsgData
      (ReadGroupChatType (K e)) content req"
  have eq: "SendSimpleMessage e c s =
      submit_simple e keyMsgData req (ReadGroupChatType (K e)) (SendSingleMsgReq.SendID req) [] s"
    by (rule SendSimpleMessage_submit [OF a routing_group [OF g(1)] g(2)])
  obtain rest where "calls (snd (SendSimpleMessage e c s)) =
      calls s @ CallSendSimpleMsg \<lparr> SendSimpleMsgReq.MsgData = ?m \<rparr> # rest"
    unfolding eq using submit_simple_calls [OF m] by blast
  moreover have "MsgData.SendID ?m = SendSingleMsgReq.SendID req"
    "MsgData.RecvID ?m = []" "MsgData.GroupID ?m = KeyMsgData.GroupID keyMsgData"
    "MsgData.SessionType ?m = ReadGroupChatType (K e)"
    by (simp_all add: simpleMsgData_fields simpleMsgData_GroupID)
  ultimately show "\<exists>msgData rest.
      calls (snd (SendSimpleMessage e c s)) =
        calls s @ CallSendSimpleMsg \<lparr> SendSimpleMsgReq.MsgData = msgData \<rparr> # rest \<and>
      MsgData.SendID msgData = SendSingleMsgReq.SendID req \<and>
      MsgData.RecvID msgData = [] \<and>
      MsgData.GroupID msgData = KeyMsgData.GroupID keyMsgData \<and>
      MsgData.SessionType msgData = ReadGroupChatType (K e)"
    by blast
qed

text \<open>
  C8, as amended. A key that fails the transport decoding ends the quick send with an
  argument error carrying the decoder's text, whatever the body, the serialiser and the
  backend are, and no remote call is made. With a body that binds, a key whose embedded
  structure does not decode ends it with an argument error carrying that decoder's text,
  a decoded key without a \<^verbatim>\<open>SendID\<close> ends it with the argument error
  "missing recvID or GroupID", and a decoded key that gives the envelope no sender ends it
  with the argument error "missing sendID"; in none of these cases is anything serialised
  or submitted.
\<close>

theorem quick_send_routing_key_errors:
  "(GetQuery c (webhook_Key (K e)) = Some encodedKey \<and>
    DecodeString (lib e) encodedKey = Inl err \<longrightarrow>
      SendSimpleMessage e c s = (Inl (WithDetail ErrArgs err), s)) \<and>
   (GetQuery c (webhook_Key (K e)) = Some encodedKey \<and>
    DecodeString (lib e) encodedKey = Inr decodedData \<and>
    BindJSON c = Inr req \<and>
    Unmarshal (lib e) decodedData = Inl err \<longrightarrow>
      SendSimpleMessage e c s = (Inl (WithDetail ErrArgs err), s)) \<and>
   (GetQuery c (webhook_Key (K e)) = Some encodedKey \<and>
    DecodeString (lib e) encodedKey = Inr decodedData \<and>
    BindJSON c = Inr req \<and>
    Unmarshal (lib e) decodedData = Inr keyMsgData \<and>
    KeyMsgData.SendID keyMsgData = [] \<longrightarrow>
      SendSimpleMessage e c s =
        (Inl (WithDetail ErrArgs ''missing recvID or GroupID''), s)) \<and>
   (GetQuery c (webhook_Key (K e)) = Some encodedKey \<and>
    DecodeString (lib e) encodedKey = Inr decodedData \<and>
    BindJSON c = Inr req \<and>
    Unmarshal (lib e) decodedData = Inr keyMsgData \<and>
    KeyMsgData.SendID keyMsgData \<noteq> [] \<and>
    (if KeyMsgData.GroupID keyMsgData \<noteq> [] then SendSingleMsgReq.SendID req
     else KeyMsgData.RecvID keyMsgData) = [] \<longrightarrow>
      SendSimpleMessage e c s = (Inl (WithDetail ErrArgs ''missing sendID''), s))"
  by (simp add: SendSimpleMessage_bad_encoding SendSimpleMessage_bad_structure
      SendSimpleMessage_no_sender SendSimpleMessage_no_sendID)

lemma example_env_parts:
  "K example_env = example_constants"
  "lib example_env = example_library"
  "proto example_env = example_proto"
  "validate (api example_env) = (\<lambda>dat. None)"
  "userClient (api example_env) = example_userClient"
  "Client (api example_env) = example_Client"
  by (simp_all add: example_env_def)

lemma example_quick_parts:
  "GetQuery (example_quick k body) (webhook_Key (K example_env)) = Some k"
  "BindJSON (example_quick k body) = body"
  by (simp_all add: example_quick_def example_env_parts example_constants_def)

lemma example_decode:
  "DecodeString (lib example_env) ''ZGlyZWN0'' = Inr ''direct''"
  "DecodeString (lib example_env) ''Z3JvdXA='' = Inr ''group''"
  "DecodeString (lib example_env) ''bm9zZW5kZXI='' = Inr ''nosender''"
  "DecodeString (lib example_env) ''bm90IGpzb24='' = Inr ''not json''"
  "DecodeString (lib example_env) ''%%%'' = Inl ''illegal base64 data at input byte 0''"
  "Unmarshal (lib example_env) ''direct'' = Inr example_direct_key"
  "Unmarshal (lib example_env) ''group'' = Inr example_group_key"
  "Unmarshal (lib example_env) ''nosender'' =
     Inr \<lparr> KeyMsgData.SendID = [], KeyMsgData.RecvID = ''bot'', KeyMsgData.GroupID = [] \<rparr>"
  "Unmarshal (lib example_env) ''not json'' = Inl ''invalid character''"
  "JsonMarshal (lib example_env) (MarkdownTextContent (SendSingleMsgReq.Content example_body)) =
     Inr ''content:hello''"
  by (simp_all add: example_env_parts example_library_def example_direct_key_def
      example_group_key_def example_body_def example_json_def example_key_json_def quoted_def)

lemma example_decode_json:
  "DecodeString (lib example_env) ''eyJzZW5kSUQiOiJ1MSIsInJlY3ZJRCI6ImJvdCJ9'' =
     Inr example_key_json"
  "Unmarshal (lib example_env) example_key_json = Inr example_direct_key"
  by (simp_all add: example_env_parts example_library_def example_direct_key_def
      example_key_json_def quoted_def)

lemma example_keys:
  "KeyMsgData.SendID example_direct_key = ''u1''"
  "KeyMsgData.RecvID example_direct_key = ''bot''"
  "KeyMsgData.GroupID example_direct_key = []"
  "KeyMsgData.SendID example_group_key = ''u1''"
  "KeyMsgData.GroupID example_group_key = ''g1''"
  "SendSingleMsgReq.SendID example_body = ''u9''"
  by (simp_all add: example_direct_key_def example_group_key_def example_body_def)

theorem quick_send_roles_witness:
  "(\<exists>msgData rest.
      calls (snd (SendSimpleMessage example_env
         (example_quick ''ZGlyZWN0'' (Inr example_body)) state_init)) =
        calls state_init @ CallSendSimpleMsg \<lparr> SendSimpleMsgReq.MsgData = msgData \<rparr> # rest \<and>
      MsgData.SendID msgData = ''bot'' \<and> MsgData.RecvID msgData = ''u1'' \<and>
      MsgData.GroupID msgData = []) \<and>
   (\<exists>msgData rest.
      calls (snd (SendSimpleMessage example_env
         (example_quick ''Z3JvdXA='' (Inr example_body)) state_init)) =
        calls state_init @ CallSendSimpleMsg \<lparr> SendSimpleMsgReq.MsgData = msgData \<rparr> # rest \<and>
      MsgData.SendID msgData = ''u9'' \<and> MsgData.RecvID msgData = [] \<and>
      MsgData.GroupID msgData = ''g1'')"
proof -
  have d: "GetQuery (example_quick ''ZGlyZWN0'' (Inr example_body)) (webhook_Key (K example_env)) =
      Some ''ZGlyZWN0'' \<and>
    DecodeString (lib example_env) ''ZGlyZWN0'' = Inr ''direct'' \<and>
    BindJSON (example_quick ''ZGlyZWN0'' (Inr example_body)) = Inr example_body \<and>
    Unmarshal (lib example_env) ''direct'' = Inr example_direct_key \<and>
    KeyMsgData.SendID example_direct_key \<noteq> [] \<and>
    JsonMarshal (lib example_env) (MarkdownTextContent (SendSingleMsgReq.Content example_body)) =
      Inr ''content:hello''"
    by (simp add: example_quick_parts example_decode example_keys)
  have d': "KeyMsgData.GroupID example_direct_key = [] \<and> KeyMsgData.RecvID example_direct_key \<noteq> []"
    by (simp add: example_keys)
  have g: "GetQuery (example_quick ''Z3JvdXA='' (Inr example_body)) (webhook_Key (K example_env)) =
      Some ''Z3JvdXA='' \<and>
    DecodeString (lib example_env) ''Z3JvdXA='' = Inr ''group'' \<and>
    BindJSON (example_quick ''Z3JvdXA='' (Inr example_body)) = Inr example_body \<and>
    Unmarshal (lib example_env) ''group'' = Inr example_group_key \<and>
    KeyMsgData.SendID example_group_key \<noteq> [] \<and>
    JsonMarshal (lib example_env) (MarkdownTextContent (SendSingleMsgReq.Content example_body)) =
      Inr ''content:hello''"
    by (simp add: example_quick_parts example_decode example_keys)
  have g': "KeyMsgData.GroupID example_group_key \<noteq> [] \<and> SendSingleMsgReq.SendID example_body \<noteq> []"
    by (simp add: example_keys)
  note D = quick_send_roles [THEN mp, OF d, THEN conjunct1, THEN mp, OF d', of state_init]
  note G = quick_send_roles [THEN mp, OF g, THEN conjunct2, THEN mp, OF g', of state_init]
  from D G show ?thesis
    unfolding example_keys by blast
qed

theorem quick_send_routing_key_errors_witness:
  "SendSimpleMessage example_env (example_quick ''%%%'' (Inl ''EOF'')) state_init =
     (Inl (WithDetail ErrArgs ''illegal base64 data at input byte 0''), state_init) \<and>
   SendSimpleMessage example_env (example_quick ''bm90IGpzb24='' (Inr example_body)) state_init =
     (Inl (WithDetail ErrArgs ''invalid character''), state_init) \<and>
   SendSimpleMessage example_env (example_quick ''bm9zZW5kZXI='' (Inr example_body)) state_init =
     (Inl (WithDetail ErrArgs ''missing recvID or GroupID''), state_init) \<and>
   SendSimpleMessage example_env
     (example_quick ''Z3JvdXA='' (Inr (example_body\<lparr> SendSingleMsgReq.SendID := [] \<rparr>)))
     state_init = (Inl (WithDetail ErrArgs ''missing sendID''), state_init)"
proof -
  have 1: "GetQuery (example_quick ''%%%'' (Inl ''EOF'')) (webhook_Key (K example_env)) =
      Some ''%%%'' \<and>
    DecodeString (lib example_env) ''%%%'' = Inl ''illegal base64 data at input byte 0''"
    by (simp add: example_quick_parts example_decode)
  have 3: "GetQuery (example_quick ''bm90IGpzb24='' (Inr example_body))
      (webhook_Key (K example_env)) = Some ''bm90IGpzb24='' \<and>
    DecodeString (lib example_env) ''bm90IGpzb24='' = Inr ''not json'' \<and>
    BindJSON (example_quick ''bm90IGpzb24='' (Inr example_body)) = Inr example_body \<and>
    Unmarshal (lib example_env) ''not json'' = Inl ''invalid character''"
    by (simp add: example_quick_parts example_decode)
  have 4: "GetQuery (example_quick ''bm9zZW5kZXI='' (Inr example_body))
      (webhook_Key (K example_env)) = Some ''bm9zZW5kZXI='' \<and>
    DecodeString (lib example_env) ''bm9zZW5kZXI='' = Inr ''nosender'' \<and>
    BindJSON (example_quick ''bm9zZW5kZXI='' (Inr example_body)) = Inr example_body \<and>
    Unmarshal (lib example_env) ''nosender'' =
      Inr \<lparr> KeyMsgData.SendID = [], KeyMsgData.RecvID = ''bot'', KeyMsgData.GroupID = [] \<rparr> \<and>
    KeyMsgData.SendID
      \<lparr> KeyMsgData.SendID = [], KeyMsgData.RecvID = ''bot'', KeyMsgData.GroupID = [] \<rparr> = []"
    by (simp add: example_quick_parts example_decode)
  let ?anon = "example_body\<lparr> SendSingleMsgReq.SendID := [] \<rparr>"
  have 5: "GetQuery (example_quick ''Z3JvdXA='' (Inr ?anon))
      (webhook_Key (K example_env)) = Some ''Z3JvdXA='' \<and>
    DecodeString (lib example_env) ''Z3JvdXA='' = Inr ''group'' \<and>
    BindJSON (example_quick ''Z3JvdXA='' (Inr ?anon)) = Inr ?anon \<and>
    Unmarshal (lib example_env) ''group'' = Inr example_group_key \<and>
    KeyMsgData.SendID example_group_key \<noteq> [] \<and>
    (if KeyMsgData.GroupID example_group_key \<noteq> [] then SendSingleMsgReq.SendID ?anon
     else KeyMsgData.RecvID example_group_key) = []"
    by (simp add: example_quick_parts example_decode example_keys)
  note T1 = quick_send_routing_key_errors [THEN conjunct1, THEN mp, OF 1, of state_init]
  note T3 = quick_send_routing_key_errors
    [THEN conjunct2, THEN conjunct1, THEN mp, OF 3, of state_init]
  note T4 = quick_send_routing_key_errors
    [THEN conjunct2, THEN conjunct2, THEN conjunct1, THEN mp, OF 4, of state_init]
  note T5 = quick_send_routing_key_errors
    [THEN conjunct2, THEN conjunct2, THEN conjunct2, THEN mp, OF 5, of state_init]
  from T1 T3 T4 T5 show ?thesis by (intro conjI)
qed

text \<open>
  C8 as stated fails: with a key whose embedded structure is malformed and a body that does
  not bind, the body's binding error is what the quick send returns, not the key's.
\<close>

theorem quick_send_routing_key_counterexample:
  "DecodeString (lib example_env) ''bm90IGpzb24='' = Inr ''not json'' \<and>
   Unmarshal (lib example_env) ''not json'' = Inl ''invalid character'' \<and>
   BindJSON (example_quick ''bm90IGpzb24='' (Inl ''EOF'')) = Inl ''EOF'' \<and>
   SendSimpleMessage example_env (example_quick ''bm90IGpzb24='' (Inl ''EOF'')) state_init =
     (Inl (WithDetail ErrArgs ''EOF''), state_init) \<and>
   fst (SendSimpleMessage example_env (example_quick ''bm90IGpzb24='' (Inl ''EOF'')) state_init)
     \<noteq> Inl (WithDetail ErrArgs ''invalid character'')"
proof -
  have "SendSimpleMessage example_env (example_quick ''bm90IGpzb24='' (Inl ''EOF'')) state_init =
     (Inl (WithDetail ErrArgs ''EOF''), state_init)"
    by (rule SendSimpleMessage_bad_body [where encodedKey = "''bm90IGpzb24=''"])
       (simp_all add: example_quick_parts example_decode)
  then show ?thesis
    by (simp add: example_quick_parts example_decode)
qed


text \<open>
  C1, as amended. The client message ID of an envelope built by \<^verbatim>\<open>newUserSendMsgReq\<close>
  (single and batch send) and by quick send is the generator's hash of three things: the
  reading of the nanosecond clock, the envelope's sender ID, and the random number drawn,
  the first and the last taken when the envelope is built. Of the request, the sender ID
  alone enters it.
\<close>

theorem client_msg_id_generator:
  "MsgData.ClientMsgID (msg_SendMsgReq.MsgData (newUserSendMsgReq e params dat)) =
     Md5 (lib e) (GetCurrentTimestampByNano (lib e)) (SendMsg.SendID params) (rand_Int63 (lib e)) \<and>
   MsgData.SendID (msg_SendMsgReq.MsgData (newUserSendMsgReq e params dat)) =
     SendMsg.SendID params \<and>
   MsgData.ClientMsgID (simpleMsgData e sendID recvID key st content body) =
     Md5 (lib e) (GetCurrentTimestampByNano (lib e)) sendID (rand_Int63 (lib e)) \<and>
   MsgData.SendID (simpleMsgData e sendID recvID key st content body) = sendID \<and>
   (getSendMsgReq e params s = (Inr r, s') \<longrightarrow>
      MsgData.SendID (msg_SendMsgReq.MsgData (set_RecvID r x)) = SendMsg.SendID params \<and>
      MsgData.ClientMsgID (msg_SendMsgReq.MsgData (set_RecvID r x)) =
        Md5 (lib e) (GetCurrentTimestampByNano (lib e)) (SendMsg.SendID params)
          (rand_Int63 (lib e)))"
proof -
  have "getSendMsgReq e params s = (Inr r, s') \<longrightarrow>
      MsgData.SendID (msg_SendMsgReq.MsgData (set_RecvID r x)) = SendMsg.SendID params \<and>
      MsgData.ClientMsgID (msg_SendMsgReq.MsgData (set_RecvID r x)) =
        Md5 (lib e) (GetCurrentTimestampByNano (lib e)) (SendMsg.SendID params)
          (rand_Int63 (lib e))"
    using getSendMsgReq_fields(1,2) [of e params s r s']
    by (simp add: set_RecvID_fields GetMsgIDByMD5_def)
  then show ?thesis
    by (simp add: newUserSendMsgReq_fields simpleMsgData_fields GetMsgIDByMD5_def)
qed

lemma example_getSendMsgReq:
  "getSendMsgReq example_env example_SendMsg state_init =
     (Inr (newUserSendMsgReq example_env example_SendMsg example_data), state_init)"
  by (simp add: getSendMsgReq_def decode_build_def example_env_parts example_constants_def
      example_library_def example_SendMsg_def example_data_def)

lemma example_redraw_parts:
  "K example_env_redraw = example_constants"
  "validate (api example_env_redraw) = (\<lambda>dat. None)"
  "WeakDecode (lib example_env_redraw) = (\<lambda>content container. Inr (container\<lparr> decoded := content \<rparr>))"
  "GetCurrentTimestampByNano (lib example_env_redraw) = 1700000000000000000"
  "rand_Int63 (lib example_env_redraw) = 8674665223082153551"
  "Md5 (lib example_env_redraw) = Md5 (lib example_env)"
  by (simp_all add: example_env_redraw_def example_env_def example_library_def)

lemma example_getSendMsgReq_redraw:
  "getSendMsgReq example_env_redraw example_SendMsg state_init =
     (Inr (newUserSendMsgReq example_env_redraw example_SendMsg example_data), state_init)"
  by (simp add: getSendMsgReq_def decode_build_def example_redraw_parts example_constants_def
      example_SendMsg_def example_data_def)

lemma example_Md5:
  "Md5 (lib example_env) 1700000000000000000 ''u1'' 5577006791947779410 =
     ''md5:1700000000000000000u15577006791947779410''"
  "Md5 (lib example_env) 1700000000000000000 ''u1'' 8674665223082153551 =
     ''md5:1700000000000000000u18674665223082153551''"
  "GetCurrentTimestampByNano (lib example_env) = 1700000000000000000"
  "rand_Int63 (lib example_env) = 5577006791947779410"
  by (simp_all add: example_env_parts example_library_def decimal.simps)

theorem client_msg_id_generator_witness:
  "getSendMsgReq example_env example_SendMsg state_init =
     (Inr (newUserSendMsgReq example_env example_SendMsg example_data), state_init) \<and>
   MsgData.SendID (msg_SendMsgReq.MsgData
      (set_RecvID (newUserSendMsgReq example_env example_SendMsg example_data) ''u2'')) =
     ''u1'' \<and>
   MsgData.ClientMsgID (msg_SendMsgReq.MsgData
      (set_RecvID (newUserSendMsgReq example_env example_SendMsg example_data) ''u2'')) =
     ''md5:1700000000000000000u15577006791947779410''"
proof -
  have u: "SendMsg.SendID example_SendMsg = ''u1''"
    by (simp add: example_SendMsg_def)
  note T = client_msg_id_generator
    [of example_env example_SendMsg example_data _ _ _ _ _ _ state_init
        "newUserSendMsgReq example_env example_SendMsg example_data" state_init "''u2''"]
  note A = T [THEN conjunct2, THEN conjunct2, THEN conjunct2, THEN conjunct2,
    THEN mp, OF example_getSendMsgReq]
  from example_getSendMsgReq A show ?thesis
    unfolding u example_Md5 by (intro conjI) simp_all
qed

text \<open>
  C1 as stated fails. Two sends built from one and the same request, so with the same
  sender ID and nothing of the caller's to tell them apart, carry different client message
  IDs as soon as the generator draws another random number; here even the clock reading is
  the same.
\<close>

theorem client_msg_id_redraw_counterexample:
  "getSendMsgReq example_env example_SendMsg state_init =
     (Inr (newUserSendMsgReq example_env example_SendMsg example_data), state_init) \<and>
   getSendMsgReq example_env_redraw example_SendMsg state_init =
     (Inr (newUserSendMsgReq example_env_redraw example_SendMsg example_data), state_init) \<and>
   MsgData.SendID (msg_SendMsgReq.MsgData
     (newUserSendMsgReq example_env example_SendMsg example_data)) = ''u1'' \<and>
   MsgData.SendID (msg_SendMsgReq.MsgData
     (newUserSendMsgReq example_env_redraw example_SendMsg example_data)) = ''u1'' \<and>
   MsgData.ClientMsgID (msg_SendMsgReq.MsgData
     (newUserSendMsgReq example_env example_SendMsg example_data)) =
     ''md5:1700000000000000000u15577006791947779410'' \<and>
   MsgData.ClientMsgID (msg_SendMsgReq.MsgData
     (newUserSendMsgReq example_env_redraw example_SendMsg example_data)) =
     ''md5:1700000000000000000u18674665223082153551'' \<and>
   MsgData.ClientMsgID (msg_SendMsgReq.MsgData
     (newUserSendMsgReq example_env example_SendMsg example_data)) \<noteq>
   MsgData.ClientMsgID (msg_SendMsgReq.MsgData
     (newUserSendMsgReq example_env_redraw example_SendMsg example_data))"
proof -
  have u: "SendMsg.SendID example_SendMsg = ''u1''"
    by (simp add: example_SendMsg_def)
  have i: "MsgData.ClientMsgID (msg_SendMsgReq.MsgData
     (newUserSendMsgReq example_env example_SendMsg example_data)) =
     ''md5:1700000000000000000u15577006791947779410''"
    by (simp add: newUserSendMsgReq_fields GetMsgIDByMD5_def u example_Md5)
  have j: "MsgData.ClientMsgID (msg_SendMsgReq.MsgData
     (newUserSendMsgReq example_env_redraw example_SendMsg example_data)) =
     ''md5:1700000000000000000u18674665223082153551''"
    by (simp add: newUserSendMsgReq_fields GetMsgIDByMD5_def u example_redraw_parts example_Md5)
  have s: "MsgData.SendID (msg_SendMsgReq.MsgData
     (newUserSendMsgReq e example_SendMsg example_data)) = ''u1''" for e
    by (simp add: newUserSendMsgReq_fields u)
  show ?thesis
    unfolding i j s using example_getSendMsgReq example_getSendMsgReq_redraw by simp
qed

text \<open>
  What the three builders do with the two timestamps: \<^verbatim>\<open>newUserSendMsgReq\<close> (and so every
  envelope single and batch send submit) stamps the clock reading taken at build time as
  the creation time, whatever send time the caller supplied, and copies the caller's send
  time; the business notification stamps the clock reading and sets no send time; quick
  send sets no send time.
\<close>

lemma builder_timestamps:
  "CreateTime (msg_SendMsgReq.MsgData (newUserSendMsgReq e params dat)) =
     GetCurrentTimestampByMill (lib e) \<and>
   MsgData.SendTime (msg_SendMsgReq.MsgData (newUserSendMsgReq e params dat)) =
     SendMsg.SendTime params \<and>
   (getSendMsgReq e params s = (Inr r, s') \<longrightarrow>
      CreateTime (msg_SendMsgReq.MsgData (set_RecvID r recvID)) =
        GetCurrentTimestampByMill (lib e) \<and>
      MsgData.SendTime (msg_SendMsgReq.MsgData (set_RecvID r recvID)) =
        SendMsg.SendTime params) \<and>
   CreateTime (msg_SendMsgReq.MsgData (businessNotificationReq e opUserID breq st' rl)) =
     GetCurrentTimestampByMill (lib e) \<and>
   MsgData.SendTime (msg_SendMsgReq.MsgData (businessNotificationReq e opUserID breq st' rl)) = 0 \<and>
   MsgData.SendTime (simpleMsgData e sendID recvID' key st content body) = 0"
proof -
  have "getSendMsgReq e params s = (Inr r, s') \<longrightarrow>
      CreateTime (msg_SendMsgReq.MsgData (set_RecvID r recvID)) =
        GetCurrentTimestampByMill (lib e) \<and>
      MsgData.SendTime (msg_SendMsgReq.MsgData (set_RecvID r recvID)) =
        SendMsg.SendTime params"
    using getSendMsgReq_fields(3,4) [of e params s r s'] by (simp add: set_RecvID_fields)
  then show ?thesis
    by (simp add: newUserSendMsgReq_fields simpleMsgData_fields businessNotificationReq_fields)
qed

text \<open>
  C7. Every send path should stamp the creation time of its envelope with the clock reading
  at build time. Quick send does not: the envelope literal of \<^verbatim>\<open>SendSimpleMessage\<close> sets
  no \<^verbatim>\<open>CreateTime\<close>, and the envelope it submits here, for the routing key
  \<^verbatim>\<open>eyJzZW5kSUQiOiJ1MSIsInJlY3ZJRCI6ImJvdCJ9\<close>, has creation time zero while the clock
  reads 1700000000000.
\<close>

theorem quick_send_no_creation_time:
  "GetCurrentTimestampByMill (lib example_env) = 1700000000000 \<and>
   calls (snd (SendSimpleMessage example_env
      (example_quick ''eyJzZW5kSUQiOiJ1MSIsInJlY3ZJRCI6ImJvdCJ9'' (Inr example_body))
      state_init)) =
     [CallSendSimpleMsg \<lparr> SendSimpleMsgReq.MsgData =
        simpleMsgData example_env ''bot'' ''u1'' example_direct_key 1 ''content:hello''
          example_body \<rparr>,
      CallSetSendMsgStatus 2] \<and>
   CreateTime (simpleMsgData example_env ''bot'' ''u1'' example_direct_key 1 ''content:hello''
     example_body) = 0 \<and>
   CreateTime (simpleMsgData example_env ''bot'' ''u1'' example_direct_key 1 ''content:hello''
     example_body) \<noteq> GetCurrentTimestampByMill (lib example_env)"
proof -
  let ?q = "\<lparr> SendSimpleMsgReq.MsgData =
     simpleMsgData example_env ''bot'' ''u1'' example_direct_key 1 ''content:hello''
       example_body \<rparr>"
  let ?c = "example_quick ''eyJzZW5kSUQiOiJ1MSIsInJlY3ZJRCI6ImJvdCJ9'' (Inr example_body)"
  have n: "GetCurrentTimestampByMill (lib example_env) = 1700000000000"
    by (simp add: example_env_parts example_library_def)
  have k: "SingleChatType (K example_env) = 1"
    "(word_of_int (MsgSendSuccessed (K example_env)) :: int32) = 2"
    by (simp_all add: example_env_parts example_constants_def)
  have r: "routing example_env example_direct_key example_body = (1, ''bot'', ''u1'')"
    using routing_direct [of example_direct_key example_env example_body]
    by (simp add: example_keys k)
  have eq: "SendSimpleMessage example_env ?c state_init =
      submit_simple example_env example_direct_key example_body 1 ''bot'' ''u1'' state_init"
    by (rule SendSimpleMessage_submit
          [OF example_quick_parts(1) example_decode_json(1) _ example_decode_json(2) _ r])
       (simp_all add: example_quick_parts example_keys)
  have s: "SendSimpleMsg (Client (api example_env)) (calls state_init) ?q =
      Inr \<lparr> SendSimpleMsgResp.ServerMsgID = ''srv'',
            SendSimpleMsgResp.ClientMsgID = MsgData.ClientMsgID (SendSimpleMsgReq.MsgData ?q),
            SendSimpleMsgResp.SendTime = 1700000000005,
            SendSimpleMsgResp.Modify = Some (SendSimpleMsgReq.MsgData ?q) \<rparr>"
    by (simp add: example_env_parts example_Client_def)
  have c: "calls (snd (SendSimpleMessage example_env ?c state_init)) =
     [CallSendSimpleMsg ?q, CallSetSendMsgStatus 2]"
    unfolding eq using submit_simple_submitted [OF example_decode(10) refl s]
    by (simp add: k state_init_def)
  show ?thesis
    by (simp add: c n simpleMsgData_fields)
qed

section \<open>Batch send\<close>

lemma set_RecvID_twice: "set_RecvID (set_RecvID req a) b = set_RecvID req b"
  by (simp add: set_RecvID_def)

lemma submissions_set_RecvID:
  "submissions e (set_RecvID req a) log rs = submissions e req log rs"
  by (induction rs arbitrary: log) (simp_all add: set_RecvID_twice)

lemma length_submissions: "length (submissions e req log rs) = length rs"
  by (induction rs arbitrary: log) simp_all

lemma submissions_nth:
  "i < length rs \<Longrightarrow>
   submissions e req log rs ! i =
     MsgClient.SendMsg (Client (api e))
       (log @ map (\<lambda>r. CallSendMsg (set_RecvID req r)) (take i rs)) (set_RecvID req (rs ! i))"
proof (induction rs arbitrary: log i)
  case Nil
  then show ?case by simp
next
  case (Cons r rs)
  show ?case
  proof (cases i)
    case 0
    then show ?thesis by simp
  next
    case (Suc j)
    with Cons.prems have "j < length rs" by simp
    from Cons.IH [OF this, of "log @ [CallSendMsg (set_RecvID req r)]"] Suc
    show ?thesis by simp
  qed
qed

lemma SendMsg_loop_eq:
  "FailedIDs (fst (SendMsg_loop e rs req resp s)) =
     FailedIDs resp @ map fst (filter (isl \<circ> snd) (zip rs (submissions e req (calls s) rs))) \<and>
   map SingleReturnResult.RecvID (Results (fst (SendMsg_loop e rs req resp s))) =
     map SingleReturnResult.RecvID (Results resp) @
     map fst (filter (Not \<circ> isl \<circ> snd) (zip rs (submissions e req (calls s) rs))) \<and>
   calls (snd (SendMsg_loop e rs req resp s)) =
     calls s @ map (\<lambda>r. CallSendMsg (set_RecvID req r)) rs"
proof (induction rs arbitrary: req resp s)
  case Nil
  then show ?case by simp
next
  case (Cons r rs)
  let ?req = "set_RecvID req r"
  let ?s1 = "s\<lparr> calls := calls s @ [CallSendMsg ?req] \<rparr>"
  show ?case
  proof (cases "MsgClient.SendMsg (Client (api e)) (calls s) ?req")
    case (Inl err)
    then have step: "SendMsg_loop e (r # rs) req resp s =
        SendMsg_loop e rs ?req (resp\<lparr> FailedIDs := FailedIDs resp @ [r] \<rparr>) ?s1"
      by (simp add: Let_def)
    show ?thesis
      unfolding step using Cons.IH [of ?req "resp\<lparr> FailedIDs := FailedIDs resp @ [r] \<rparr>" ?s1] Inl
      by (simp add: submissions_set_RecvID set_RecvID_twice)
  next
    case (Inr rpcResp)
    obtain modify s2 where g: "getModifyFields (proto e) (Some (msg_SendMsgReq.MsgData ?req))
        (msg_SendMsgResp.Modify rpcResp) ?s1 = (modify, s2)"
      by (cases "getModifyFields (proto e) (Some (msg_SendMsgReq.MsgData ?req))
        (msg_SendMsgResp.Modify rpcResp) ?s1")
    have c2: "calls s2 = calls s @ [CallSendMsg ?req]"
      using getModifyFields_calls [of "proto e" "Some (msg_SendMsgReq.MsgData ?req)"
        "msg_SendMsgResp.Modify rpcResp" ?s1] g by simp
    let ?resp = "resp\<lparr> Results := Results resp @
        [\<lparr> SingleReturnResult.ServerMsgID = msg_SendMsgResp.ServerMsgID rpcResp,
           SingleReturnResult.ClientMsgID = msg_SendMsgResp.ClientMsgID rpcResp,
           SingleReturnResult.SendTime = msg_SendMsgResp.SendTime rpcResp,
           SingleReturnResult.RecvID = r,
           SingleReturnResult.Modify = modify \<rparr>] \<rparr>"
    from Inr g have step: "SendMsg_loop e (r # rs) req resp s = SendMsg_loop e rs ?req ?resp s2"
      by (simp add: Let_def)
    show ?thesis
      unfolding step using Cons.IH [of ?req ?resp s2] Inr
      by (simp add: submissions_set_RecvID set_RecvID_twice c2)
  qed
qed

lemma zip_filter_none:
  "length ys = length xs \<Longrightarrow> \<forall>i<length xs. \<not> P (ys ! i) \<Longrightarrow>
   map fst (filter (P \<circ> snd) (zip xs ys)) = [] \<and>
   map fst (filter (Not \<circ> P \<circ> snd) (zip xs ys)) = xs"
proof (induction xs arbitrary: ys)
  case Nil
  then show ?case by simp
next
  case (Cons x xs)
  then obtain y ys' where ys: "ys = y # ys'" by (cases ys) auto
  with Cons.prems have "length ys' = length xs" "\<forall>i<length xs. \<not> P (ys' ! i)" "\<not> P y"
    by auto
  with Cons.IH [of ys'] ys show ?case by (simp add: comp_def)
qed

lemma zip_filter_one:
  "length ys = length xs \<Longrightarrow> k < length xs \<Longrightarrow> \<forall>i<length xs. P (ys ! i) = (i = k) \<Longrightarrow>
   map fst (filter (P \<circ> snd) (zip xs ys)) = [xs ! k] \<and>
   map fst (filter (Not \<circ> P \<circ> snd) (zip xs ys)) = take k xs @ drop (Suc k) xs"
proof (induction xs arbitrary: ys k)
  case Nil
  then show ?case by simp
next
  case (Cons x xs)
  then obtain y ys' where ys: "ys = y # ys'" by (cases ys) auto
  with Cons.prems have len: "length ys' = length xs" by simp
  show ?case
  proof (cases k)
    case 0
    with Cons.prems ys have "P y" "\<forall>i<length xs. \<not> P (ys' ! i)" by auto
    with zip_filter_none [OF len, of P] ys 0 show ?thesis by (simp add: comp_def)
  next
    case (Suc j)
    with Cons.prems ys have "\<not> P y" "j < length xs" "\<forall>i<length xs. P (ys' ! i) = (i = j)"
      by auto
    with Cons.IH [OF len, of j] ys Suc show ?thesis by (simp add: comp_def)
  qed
qed

lemma SendMsg_loop_partial_failure:
  "length (FailedIDs (fst (SendMsg_loop e recvIDs sendMsgReq
       \<lparr> Results = [], FailedIDs = [] \<rparr> s))) +
   length (Results (fst (SendMsg_loop e recvIDs sendMsgReq
       \<lparr> Results = [], FailedIDs = [] \<rparr> s))) = length recvIDs \<and>
   (k < length recvIDs \<and>
    list_all
      (\<lambda>i. isl (MsgClient.SendMsg (Client (api e))
                 (calls s @ map (\<lambda>r. CallSendMsg (set_RecvID sendMsgReq r)) (take i recvIDs))
                 (set_RecvID sendMsgReq (recvIDs ! i))) = (i = k))
      [0..<length recvIDs] \<longrightarrow>
      FailedIDs (fst (SendMsg_loop e recvIDs sendMsgReq
          \<lparr> Results = [], FailedIDs = [] \<rparr> s)) = [recvIDs ! k] \<and>
      map SingleReturnResult.RecvID (Results (fst (SendMsg_loop e recvIDs sendMsgReq
          \<lparr> Results = [], FailedIDs = [] \<rparr> s))) = take k recvIDs @ drop (Suc k) recvIDs \<and>
      length (Results (fst (SendMsg_loop e recvIDs sendMsgReq
          \<lparr> Results = [], FailedIDs = [] \<rparr> s))) = length recvIDs - 1)"
proof -
  let ?out = "fst (SendMsg_loop e recvIDs sendMsgReq \<lparr> Results = [], FailedIDs = [] \<rparr> s)"
  let ?subs = "submissions e sendMsgReq (calls s) recvIDs"
  note eq = SendMsg_loop_eq [of e recvIDs sendMsgReq "\<lparr> Results = [], FailedIDs = [] \<rparr>" s]
  have f: "FailedIDs ?out = map fst (filter (isl \<circ> snd) (zip recvIDs ?subs))"
    using eq by simp
  have r: "map SingleReturnResult.RecvID (Results ?out) =
      map fst (filter (Not \<circ> isl \<circ> snd) (zip recvIDs ?subs))"
    using eq by simp
  have "length (FailedIDs ?out) + length (map SingleReturnResult.RecvID (Results ?out)) =
      length (zip recvIDs ?subs)"
    unfolding f r length_map using sum_length_filter_compl [of "isl \<circ> snd" "zip recvIDs ?subs"]
    by (simp add: comp_def)
  then have total: "length (FailedIDs ?out) + length (Results ?out) = length recvIDs"
    by (simp add: length_submissions)
  have one: "FailedIDs ?out = [recvIDs ! k] \<and>
      map SingleReturnResult.RecvID (Results ?out) = take k recvIDs @ drop (Suc k) recvIDs \<and>
      length (Results ?out) = length recvIDs - 1"
    if k: "k < length recvIDs"
      and h: "list_all
      (\<lambda>i. isl (MsgClient.SendMsg (Client (api e))
                 (calls s @ map (\<lambda>r. CallSendMsg (set_RecvID sendMsgReq r)) (take i recvIDs))
                 (set_RecvID sendMsgReq (recvIDs ! i))) = (i = k))
      [0..<length recvIDs]"
  proof -
    from h have "\<forall>i<length recvIDs. isl (?subs ! i) = (i = k)"
      by (simp add: list_all_iff submissions_nth)
    from zip_filter_one [OF length_submissions k this]
    have z: "map fst (filter (isl \<circ> snd) (zip recvIDs ?subs)) = [recvIDs ! k]"
      "map fst (filter (Not \<circ> isl \<circ> snd) (zip recvIDs ?subs)) =
         take k recvIDs @ drop (Suc k) recvIDs"
      by simp_all
    from z(1) f have 1: "FailedIDs ?out = [recvIDs ! k]" by simp
    with total have "length (Results ?out) = length recvIDs - 1" by simp
    with 1 z(2) r show ?thesis by simp
  qed
  from total one show ?thesis by blast
qed

lemma BatchSendMsg_resolved:
  "BindJSON c = Inr req \<Longrightarrow> CheckAdmin c = None \<Longrightarrow>
   (if IsSendAll req then GetAllUserIDs_loop (userClient (api e)) 1 [] s
    else Some (Inr (RecvIDs req), s)) = Some (Inr recvIDs, s1) \<Longrightarrow>
   BatchSendMsg e c s =
     (case getSendMsgReq e (BatchSendMsgReq.SendMsg req) s1 of
        (Inl err, s2) \<Rightarrow> Some (Inl err, s2)
      | (Inr sendMsgReq, s2) \<Rightarrow>
          Some (Inr (fst (SendMsg_loop e recvIDs sendMsgReq \<lparr> Results = [], FailedIDs = [] \<rparr> s2)),
                snd (SendMsg_loop e recvIDs sendMsgReq \<lparr> Results = [], FailedIDs = [] \<rparr> s2)))"
  by (simp add: BatchSendMsg_def Let_def case_prod_beta split: sum.splits)

text \<open>
  C2. Take a batch send whose request binds, whose operator is an administrator, whose
  recipients resolve (to the list of the request, or to the directory's pages when
  \<^verbatim>\<open>IsSendAll\<close> is set) and whose envelope builds. It returns a result. It has then submitted
  once for every recipient, in order, whatever the backend answered, and every recipient is
  in the failure list or in the results. When the submission at position \<open>k\<close> fails and all
  the others succeed, the failure list is that one recipient, and the results are the other
  recipients, in the order of the list, one fewer than the recipients.
\<close>

theorem batch_partial_failure:
  "BindJSON c = Inr req \<and> CheckAdmin c = None \<and>
   (if IsSendAll req then GetAllUserIDs_loop (userClient (api e)) 1 [] s
    else Some (Inr (RecvIDs req), s)) = Some (Inr recvIDs, s1) \<and>
   getSendMsgReq e (BatchSendMsgReq.SendMsg req) s1 = (Inr sendMsgReq, s2) \<longrightarrow>
   (\<exists>resp s3.
      BatchSendMsg e c s = Some (Inr resp, s3) \<and>
      calls s3 = calls s2 @ map (\<lambda>r. CallSendMsg (set_RecvID sendMsgReq r)) recvIDs \<and>
      length (FailedIDs resp) + length (Results resp) = length recvIDs \<and>
      (k < length recvIDs \<and>
       list_all
         (\<lambda>i. isl (MsgClient.SendMsg (Client (api e))
                    (calls s2 @ map (\<lambda>r. CallSendMsg (set_RecvID sendMsgReq r)) (take i recvIDs))
                    (set_RecvID sendMsgReq (recvIDs ! i))) = (i = k))
         [0..<length recvIDs] \<longrightarrow>
         FailedIDs resp = [recvIDs ! k] \<and>
         map SingleReturnResult.RecvID (Results resp) = take k recvIDs @ drop (Suc k) recvIDs \<and>
         length (Results resp) = length recvIDs - 1))"
proof (intro impI, elim conjE)
  let ?loop = "SendMsg_loop e recvIDs sendMsgReq \<lparr> Results = [], FailedIDs = [] \<rparr> s2"
  assume "BindJSON c = Inr req" and "CheckAdmin c = None"
    and "(if IsSendAll req then GetAllUserIDs_loop (userClient (api e)) 1 [] s
          else Some (Inr (RecvIDs req), s)) = Some (Inr recvIDs, s1)"
    and g: "getSendMsgReq e (BatchSendMsgReq.SendMsg req) s1 = (Inr sendMsgReq, s2)"
  then have run: "BatchSendMsg e c s = Some (Inr (fst ?loop), snd ?loop)"
    by (simp add: BatchSendMsg_resolved)
  have log: "calls (snd ?loop) =
      calls s2 @ map (\<lambda>r. CallSendMsg (set_RecvID sendMsgReq r)) recvIDs"
    using SendMsg_loop_eq [of e recvIDs sendMsgReq "\<lparr> Results = [], FailedIDs = [] \<rparr>" s2]
    by simp
  note total = SendMsg_loop_partial_failure [of e recvIDs sendMsgReq s2 k, THEN conjunct1]
  note one = SendMsg_loop_partial_failure [of e recvIDs sendMsgReq s2 k, THEN conjunct2]
  from run log total one show "\<exists>resp s3.
      BatchSendMsg e c s = Some (Inr resp, s3) \<and>
      calls s3 = calls s2 @ map (\<lambda>r. CallSendMsg (set_RecvID sendMsgReq r)) recvIDs \<and>
      length (FailedIDs resp) + length (Results resp) = length recvIDs \<and>
      (k < length recvIDs \<and>
       list_all
         (\<lambda>i. isl (MsgClient.SendMsg (Client (api e))
                    (calls s2 @ map (\<lambda>r. CallSendMsg (set_RecvID sendMsgReq r)) (take i recvIDs))
                    (set_RecvID sendMsgReq (recvIDs ! i))) = (i = k))
         [0..<length recvIDs] \<longrightarrow>
         FailedIDs resp = [recvIDs ! k] \<and>
         map SingleReturnResult.RecvID (Results resp) = take k recvIDs @ drop (Suc k) recvIDs \<and>
         length (Results resp) = length recvIDs - 1)"
    by (intro exI [of _ "fst ?loop"] exI [of _ "snd ?loop"] conjI)
qed

lemma example_SendMsg_isl:
  "isl (MsgClient.SendMsg (Client (api example_env)) log (set_RecvID req r)) = (r = ''u-bad'')"
  by (simp add: example_env_def example_Client_def set_RecvID_fields)

lemma example_getSendMsgReq_any:
  "getSendMsgReq example_env example_SendMsg s = (Inr example_template, s)"
  by (simp add: getSendMsgReq_def decode_build_def example_env_parts example_constants_def
      example_library_def example_SendMsg_def example_data_def example_template_def)

lemma example_batch_parts:
  "BindJSON (example_batch a rs) =
     Inr \<lparr> BatchSendMsgReq.SendMsg = example_SendMsg, IsSendAll = a, RecvIDs = rs \<rparr>"
  "CheckAdmin (example_batch a rs) = None"
  by (simp_all add: example_batch_def)

theorem batch_partial_failure_witness:
  "\<exists>resp s3.
     BatchSendMsg example_env (example_batch False [''u1'', ''u-bad'', ''u3'']) state_init =
       Some (Inr resp, s3) \<and>
     calls s3 =
       [CallSendMsg (set_RecvID example_template ''u1''),
        CallSendMsg (set_RecvID example_template ''u-bad''),
        CallSendMsg (set_RecvID example_template ''u3'')] \<and>
     FailedIDs resp = [''u-bad''] \<and>
     map SingleReturnResult.RecvID (Results resp) = [''u1'', ''u3''] \<and>
     length (Results resp) = 2 \<and>
     length (FailedIDs resp) + length (Results resp) = 3"
proof -
  let ?rs = "[''u1'', ''u-bad'', ''u3'']"
  let ?req = "\<lparr> BatchSendMsgReq.SendMsg = example_SendMsg, IsSendAll = False, RecvIDs = ?rs \<rparr>"
  have h: "BindJSON (example_batch False ?rs) = Inr ?req \<and>
      CheckAdmin (example_batch False ?rs) = None \<and>
      (if IsSendAll ?req then GetAllUserIDs_loop (userClient (api example_env)) 1 [] state_init
       else Some (Inr (RecvIDs ?req), state_init)) = Some (Inr ?rs, state_init) \<and>
      getSendMsgReq example_env (BatchSendMsgReq.SendMsg ?req) state_init =
        (Inr example_template, state_init)"
    by (simp add: example_batch_parts example_getSendMsgReq_any)
  have f: "(1::nat) < length ?rs \<and>
   list_all
     (\<lambda>i. isl (MsgClient.SendMsg (Client (api example_env))
                (calls state_init @
                 map (\<lambda>r. CallSendMsg (set_RecvID example_template r)) (take i ?rs))
                (set_RecvID example_template (?rs ! i))) = (i = 1))
     [0..<length ?rs]"
    by (simp add: example_SendMsg_isl)
  from batch_partial_failure
    [of "example_batch False ?rs" ?req example_env state_init ?rs state_init example_template
        state_init 1, THEN mp, OF h]
  obtain resp s3 where
    run: "BatchSendMsg example_env (example_batch False ?rs) state_init = Some (Inr resp, s3)"
    and log: "calls s3 =
      calls state_init @ map (\<lambda>r. CallSendMsg (set_RecvID example_template r)) ?rs"
    and total: "length (FailedIDs resp) + length (Results resp) = length ?rs"
    and one: "(1::nat) < length ?rs \<and>
       list_all
         (\<lambda>i. isl (MsgClient.SendMsg (Client (api example_env))
                    (calls state_init @
                     map (\<lambda>r. CallSendMsg (set_RecvID example_template r)) (take i ?rs))
                    (set_RecvID example_template (?rs ! i))) = (i = 1))
         [0..<length ?rs] \<longrightarrow>
       FailedIDs resp = [?rs ! 1] \<and>
       map SingleReturnResult.RecvID (Results resp) = take 1 ?rs @ drop (Suc 1) ?rs \<and>
       length (Results resp) = length ?rs - 1"
    by blast
  note R = one [THEN mp, OF f]
  from log have log': "calls s3 =
       [CallSendMsg (set_RecvID example_template ''u1''),
        CallSendMsg (set_RecvID example_template ''u-bad''),
        CallSendMsg (set_RecvID example_template ''u3'')]"
    by (simp add: state_init_def)
  from R have R': "FailedIDs resp = [''u-bad'']"
    "map SingleReturnResult.RecvID (Results resp) = [''u1'', ''u3'']"
    "length (Results resp) = 2"
    by simp_all
  from total have total': "length (FailedIDs resp) + length (Results resp) = 3"
    by simp
  from run log' R' total' show ?thesis
    by (intro exI [of _ resp] exI [of _ s3] conjI)
qed

lemma page_calls_0: "page_calls p 0 = []"
  by (simp add: page_calls_def)

lemma page_calls_Suc:
  "page_calls p (Suc n) = CallGetAllUserIDs p (word_of_int showNumber) # page_calls (p + 1) n"
proof -
  have "[0..<Suc n] = 0 # map Suc [0..<n]"
    by (simp add: upt_conv_Cons map_Suc_upt del: upt_Suc)
  then show ?thesis
    by (simp add: page_calls_def comp_def add.assoc del: upt_Suc)
qed

lemma GetAllUserIDs_loop_pages:
  assumes "pages \<noteq> []"
    and "\<forall>i<length pages.
           GetAllUserIDs uc (calls s @ page_calls p i) (p + of_nat i) (word_of_int showNumber) =
             Inr (pages ! i)"
    and "\<forall>page \<in> set (butlast pages). showNumber \<le> int (length page)"
    and "int (length (last pages)) < showNumber"
  shows "GetAllUserIDs_loop uc p acc s =
     Some (Inr (acc @ concat pages), s\<lparr> calls := calls s @ page_calls p (length pages) \<rparr>)"
  using assms
proof (induction pages arbitrary: p acc s)
  case Nil
  then show ?case by simp
next
  case (Cons page pages)
  let ?s' = "s\<lparr> calls := calls s @ [CallGetAllUserIDs p (word_of_int showNumber)] \<rparr>"
  from Cons.prems(2) have first:
    "GetAllUserIDs uc (calls s) p (word_of_int showNumber) = Inr page"
    by (auto simp: page_calls_0 dest: spec [of _ 0])
  show ?case
  proof (cases "pages = []")
    case True
    with Cons.prems(4) have "int (length page) < showNumber" by simp
    with first True show ?thesis
      by (subst GetAllUserIDs_loop.simps) (simp add: Let_def page_calls_Suc page_calls_0)
  next
    case False
    with Cons.prems(3) have full: "\<not> int (length page) < showNumber" by auto
    have rest: "\<forall>i<length pages.
        GetAllUserIDs uc (calls ?s' @ page_calls (p + 1) i) (p + 1 + of_nat i)
          (word_of_int showNumber) = Inr (pages ! i)"
    proof (intro allI impI)
      fix i assume "i < length pages"
      then have "Suc i < length (page # pages)" by simp
      from Cons.prems(2) [rule_format, OF this]
      show "GetAllUserIDs uc (calls ?s' @ page_calls (p + 1) i) (p + 1 + of_nat i)
          (word_of_int showNumber) = Inr (pages ! i)"
        by (simp add: page_calls_Suc ac_simps)
    qed
    from Cons.prems(3) False have b: "\<forall>pg \<in> set (butlast pages). showNumber \<le> int (length pg)"
      by auto
    from Cons.prems(4) False have l: "int (length (last pages)) < showNumber"
      by simp
    have step: "GetAllUserIDs_loop uc p acc s = GetAllUserIDs_loop uc (p + 1) (acc @ page) ?s'"
      using first full by (subst GetAllUserIDs_loop.simps) (simp add: Let_def)
    show ?thesis
      unfolding step Cons.IH [OF False rest b l]
      by (simp add: page_calls_Suc)
  qed
qed

lemma sint_page:
  "j < 2 ^ 31 - 1 \<Longrightarrow> sint (1 + of_nat j :: int32) = 1 + int j"
proof -
  assume j: "j < 2 ^ 31 - 1"
  have "(1 + of_nat j :: int32) = word_of_int (1 + int j)" by simp
  then have "sint (1 + of_nat j :: int32) = signed_take_bit 31 (1 + int j)"
    by (simp only: sint_sbintrunc') simp
  also have "\<dots> = 1 + int j"
    using j by (intro signed_take_bit_int_eq_self) auto
  finally show ?thesis .
qed

lemma pages_increasing:
  "n < 2 ^ 31 \<Longrightarrow> sorted_wrt (<) (map (\<lambda>j. sint (1 + of_nat j :: int32)) [0..<n])"
proof -
  assume n: "n < 2 ^ 31"
  have eq: "map (\<lambda>j. sint (1 + of_nat j :: int32)) [0..<n] = map (\<lambda>j. 1 + int j) [0..<n]"
    using n by (intro map_cong refl sint_page) auto
  show ?thesis
    unfolding eq by (simp add: sorted_wrt_map sorted_wrt_iff_nth_less)
qed


lemma page_requests_append:
  "page_requests (xs @ ys) = page_requests xs @ page_requests ys"
  by (simp add: page_requests_def)

lemma page_requests_page_calls:
  "page_requests (page_calls p n) =
     map (\<lambda>j. (p + of_nat j, word_of_int showNumber)) [0..<n]"
  by (induction n) (simp_all add: page_requests_def page_calls_def)

lemma page_requests_submissions:
  "page_requests (map (\<lambda>r. CallSendMsg (f r)) rs) = []"
  by (induction rs) (simp_all add: page_requests_def)

lemma getSendMsgReq_log:
  "\<exists>extra. calls (snd (getSendMsgReq e req s)) = calls s @ extra \<and> page_requests extra = []"
proof -
  have "calls (snd (getSendMsgReq e req s)) = calls s \<or>
      calls (snd (getSendMsgReq e req s)) =
        calls s @ [CallGetNotificationByID (SendMsg.SendID req)]"
    by (simp add: getSendMsgReq_def Let_def decode_build_state split: option.splits)
  then show ?thesis
  proof
    assume "calls (snd (getSendMsgReq e req s)) = calls s"
    then show ?thesis
      by (intro exI [of _ "[]"]) (simp add: page_requests_def)
  next
    assume "calls (snd (getSendMsgReq e req s)) =
        calls s @ [CallGetNotificationByID (SendMsg.SendID req)]"
    then show ?thesis
      by (intro exI [of _ "[CallGetNotificationByID (SendMsg.SendID req)]"])
         (simp add: page_requests_def)
  qed
qed

lemma BatchSendMsg_send_all_log:
  assumes c: "BindJSON c = Inr req" "CheckAdmin c = None" "IsSendAll req"
    and l: "GetAllUserIDs_loop (userClient (api e)) 1 [] s = Some (Inr recvIDs, s1)"
  shows "\<exists>out s'. BatchSendMsg e c s = Some (out, s') \<and>
     (\<exists>extra. calls s' = calls s1 @ extra \<and> page_requests extra = []) \<and>
     (\<forall>sendMsgReq s2.
        getSendMsgReq e (BatchSendMsgReq.SendMsg req) s1 = (Inr sendMsgReq, s2) \<longrightarrow>
          \<not> isl out \<and>
          calls s' = calls s2 @ map (\<lambda>r. CallSendMsg (set_RecvID sendMsgReq r)) recvIDs)"
proof -
  from c l have r: "(if IsSendAll req then GetAllUserIDs_loop (userClient (api e)) 1 [] s
      else Some (Inr (RecvIDs req), s)) = Some (Inr recvIDs, s1)"
    by simp
  note run = BatchSendMsg_resolved [OF c(1,2) r]
  obtain res s2 where g: "getSendMsgReq e (BatchSendMsgReq.SendMsg req) s1 = (res, s2)"
    by (cases "getSendMsgReq e (BatchSendMsgReq.SendMsg req) s1")
  from getSendMsgReq_log [of e "BatchSendMsgReq.SendMsg req" s1] g
  obtain extra where x: "calls s2 = calls s1 @ extra" "page_requests extra = []"
    by auto
  show ?thesis
  proof (cases res)
    case (Inl err)
    with run g have "BatchSendMsg e c s = Some (Inl err, s2)"
      by simp
    with x g Inl show ?thesis
      by auto
  next
    case (Inr sendMsgReq)
    let ?loop = "SendMsg_loop e recvIDs sendMsgReq \<lparr> Results = [], FailedIDs = [] \<rparr> s2"
    from Inr run g have b: "BatchSendMsg e c s = Some (Inr (fst ?loop), snd ?loop)"
      by simp
    have log: "calls (snd ?loop) =
        calls s2 @ map (\<lambda>r. CallSendMsg (set_RecvID sendMsgReq r)) recvIDs"
      using SendMsg_loop_eq [of e recvIDs sendMsgReq "\<lparr> Results = [], FailedIDs = [] \<rparr>" s2]
      by simp
    have "calls (snd ?loop) =
        calls s1 @ (extra @ map (\<lambda>r. CallSendMsg (set_RecvID sendMsgReq r)) recvIDs) \<and>
      page_requests (extra @ map (\<lambda>r. CallSendMsg (set_RecvID sendMsgReq r)) recvIDs) = []"
      using log x by (simp add: page_requests_append page_requests_submissions)
    then have "\<exists>extra. calls (snd ?loop) = calls s1 @ extra \<and> page_requests extra = []"
      by blast
    with b log g Inr show ?thesis
      by auto
  qed
qed

text \<open>
  C4. Take a batch send with \<^verbatim>\<open>IsSendAll\<close> set, whose request binds and whose operator is
  an administrator, and let the directory answer the requests for pages 1, 2, ... with
  \<open>pages\<close>, all of them at least \<^verbatim>\<open>showNumber\<close> long but the last, which is shorter. Then
  the handler returns. The directory pages it has requested, from first to last, are
  exactly these: page \<open>1 + j\<close> as its request number \<open>j\<close>, each with the page size
  \<^verbatim>\<open>showNumber\<close>, and none after the short page, neither by the paging loop nor later.
  The recipients it resolves are the pages concatenated in order, as many as the lengths of
  the pages add up to, and when the envelope builds they are the recipients it submits to,
  in this order. The page number is an \<^verbatim>\<open>int32\<close>: below \<open>2 ^ 31\<close> pages the numbers
  requested are strictly increasing.
\<close>

theorem send_to_all_paging:
  "BindJSON c = Inr req \<and> CheckAdmin c = None \<and> IsSendAll req \<and>
   pages \<noteq> [] \<and>
   list_all
     (\<lambda>i. GetAllUserIDs (userClient (api e)) (calls s @ page_calls 1 i) (1 + of_nat i)
             (word_of_int showNumber) = Inr (pages ! i))
     [0..<length pages] \<and>
   list_all (\<lambda>page. showNumber \<le> int (length page)) (butlast pages) \<and>
   int (length (last pages)) < showNumber \<longrightarrow>
     (\<exists>out s'.
        BatchSendMsg e c s = Some (out, s') \<and>
        page_requests (calls s') =
          page_requests (calls s) @
          map (\<lambda>j. (1 + of_nat j, word_of_int showNumber)) [0..<length pages] \<and>
        (\<forall>sendMsgReq s2.
           getSendMsgReq e (BatchSendMsgReq.SendMsg req)
             (s\<lparr> calls := calls s @ page_calls 1 (length pages) \<rparr>) = (Inr sendMsgReq, s2) \<longrightarrow>
             \<not> isl out \<and>
             calls s' =
               calls s2 @ map (\<lambda>r. CallSendMsg (set_RecvID sendMsgReq r)) (concat pages))) \<and>
     GetAllUserIDs_loop (userClient (api e)) 1 [] s =
       Some (Inr (concat pages), s\<lparr> calls := calls s @ page_calls 1 (length pages) \<rparr>) \<and>
     length (concat pages) = sum_list (map length pages) \<and>
     page_calls 1 (length pages) =
       map (\<lambda>j. CallGetAllUserIDs (1 + of_nat j) (word_of_int showNumber)) [0..<length pages] \<and>
     (length pages < 2 ^ 31 \<longrightarrow>
        sorted_wrt (<) (map (\<lambda>j. sint (1 + of_nat j :: int32)) [0..<length pages]))"
proof (intro impI, elim conjE)
  let ?s1 = "s\<lparr> calls := calls s @ page_calls 1 (length pages) \<rparr>"
  assume c: "BindJSON c = Inr req" "CheckAdmin c = None" "IsSendAll req"
    and p: "pages \<noteq> []"
      "list_all
        (\<lambda>i. GetAllUserIDs (userClient (api e)) (calls s @ page_calls 1 i) (1 + of_nat i)
                (word_of_int showNumber) = Inr (pages ! i))
        [0..<length pages]"
      "list_all (\<lambda>page. showNumber \<le> int (length page)) (butlast pages)"
      "int (length (last pages)) < showNumber"
  from p have loop: "GetAllUserIDs_loop (userClient (api e)) 1 [] s =
       Some (Inr (concat pages), ?s1)"
    using GetAllUserIDs_loop_pages [of pages "userClient (api e)" s 1 "[]"]
    by (simp add: list_all_iff)
  from BatchSendMsg_send_all_log [OF c loop]
  obtain out s' extra where run: "BatchSendMsg e c s = Some (out, s')"
    and log: "calls s' = calls ?s1 @ extra" "page_requests extra = []"
    and sub: "\<forall>sendMsgReq s2.
        getSendMsgReq e (BatchSendMsgReq.SendMsg req) ?s1 = (Inr sendMsgReq, s2) \<longrightarrow>
          \<not> isl out \<and>
          calls s' = calls s2 @ map (\<lambda>r. CallSendMsg (set_RecvID sendMsgReq r)) (concat pages)"
    by blast
  from log have req: "page_requests (calls s') =
      page_requests (calls s) @
      map (\<lambda>j. (1 + of_nat j, word_of_int showNumber)) [0..<length pages]"
    by (simp add: page_requests_append page_requests_page_calls)
  have handler: "\<exists>out s'.
        BatchSendMsg e c s = Some (out, s') \<and>
        page_requests (calls s') =
          page_requests (calls s) @
          map (\<lambda>j. (1 + of_nat j, word_of_int showNumber)) [0..<length pages] \<and>
        (\<forall>sendMsgReq s2.
           getSendMsgReq e (BatchSendMsgReq.SendMsg req) ?s1 = (Inr sendMsgReq, s2) \<longrightarrow>
             \<not> isl out \<and>
             calls s' =
               calls s2 @ map (\<lambda>r. CallSendMsg (set_RecvID sendMsgReq r)) (concat pages))"
    using run req sub by blast
  have len: "length (concat pages) = sum_list (map length pages)"
    by (simp add: length_concat)
  have pc: "page_calls 1 (length pages) =
       map (\<lambda>j. CallGetAllUserIDs (1 + of_nat j) (word_of_int showNumber)) [0..<length pages]"
    by (simp add: page_calls_def)
  have inc: "length pages < 2 ^ 31 \<longrightarrow>
        sorted_wrt (<) (map (\<lambda>j. sint (1 + of_nat j :: int32)) [0..<length pages])"
    by (simp add: pages_increasing)
  from handler loop len pc inc
  show "(\<exists>out s'.
        BatchSendMsg e c s = Some (out, s') \<and>
        page_requests (calls s') =
          page_requests (calls s) @
          map (\<lambda>j. (1 + of_nat j, word_of_int showNumber)) [0..<length pages] \<and>
        (\<forall>sendMsgReq s2.
           getSendMsgReq e (BatchSendMsgReq.SendMsg req) ?s1 = (Inr sendMsgReq, s2) \<longrightarrow>
             \<not> isl out \<and>
             calls s' =
               calls s2 @ map (\<lambda>r. CallSendMsg (set_RecvID sendMsgReq r)) (concat pages))) \<and>
     GetAllUserIDs_loop (userClient (api e)) 1 [] s = Some (Inr (concat pages), ?s1) \<and>
     length (concat pages) = sum_list (map length pages) \<and>
     page_calls 1 (length pages) =
       map (\<lambda>j. CallGetAllUserIDs (1 + of_nat j) (word_of_int showNumber)) [0..<length pages] \<and>
     (length pages < 2 ^ 31 \<longrightarrow>
        sorted_wrt (<) (map (\<lambda>j. sint (1 + of_nat j :: int32)) [0..<length pages]))"
    by (intro conjI)
qed

theorem send_to_all_paging_witness:
  "(\<exists>out s'.
      BatchSendMsg example_env (example_batch True []) state_init = Some (out, s') \<and>
      \<not> isl out \<and>
      page_requests (calls s') = [(1, 500), (2, 500)] \<and>
      calls s' =
        [CallGetAllUserIDs 1 500, CallGetAllUserIDs 2 500] @
        map (\<lambda>r. CallSendMsg (set_RecvID example_template r))
          (replicate 500 ''u'' @ [''v'', ''w''])) \<and>
   GetAllUserIDs_loop example_userClient 1 [] state_init =
     Some (Inr (replicate 500 ''u'' @ [''v'', ''w'']),
           state_init\<lparr> calls := [CallGetAllUserIDs 1 500, CallGetAllUserIDs 2 500] \<rparr>) \<and>
   length (replicate 500 ''u'' @ [''v'', ''w'']) = 502 \<and>
   sorted_wrt (<) [sint (1 :: int32), sint (2 :: int32)]"
proof -
  let ?pages = "[replicate 500 ''u'', [''v'', ''w'']]"
  let ?req = "\<lparr> BatchSendMsgReq.SendMsg = example_SendMsg, IsSendAll = True, RecvIDs = [] \<rparr>"
  let ?s1 = "state_init\<lparr> calls := calls state_init @ page_calls 1 (length ?pages) \<rparr>"
  have h: "BindJSON (example_batch True []) = Inr ?req \<and>
   CheckAdmin (example_batch True []) = None \<and> IsSendAll ?req \<and>
   ?pages \<noteq> [] \<and>
   list_all
     (\<lambda>i. GetAllUserIDs (userClient (api example_env)) (calls state_init @ page_calls 1 i)
              (1 + of_nat i) (word_of_int showNumber) = Inr (?pages ! i))
     [0..<length ?pages] \<and>
   list_all (\<lambda>page. showNumber \<le> int (length page)) (butlast ?pages) \<and>
   int (length (last ?pages)) < showNumber"
    by (simp add: example_batch_parts example_env_parts example_userClient_def showNumber_def)
  have n: "length ?pages < (2::nat) ^ 31"
    by simp
  have c: "calls state_init @ page_calls 1 (length ?pages) =
      [CallGetAllUserIDs 1 500, CallGetAllUserIDs 2 500]"
    by (simp add: page_calls_def state_init_def showNumber_def)
  have g: "getSendMsgReq example_env (BatchSendMsgReq.SendMsg ?req) ?s1 =
      (Inr example_template, ?s1)"
    by (simp add: example_getSendMsgReq_any)
  note T = send_to_all_paging
    [of "example_batch True []" ?req ?pages example_env state_init, THEN mp, OF h]
  from T [THEN conjunct1]
  obtain out s' where run: "BatchSendMsg example_env (example_batch True []) state_init =
      Some (out, s')"
    and req: "page_requests (calls s') =
      page_requests (calls state_init) @
      map (\<lambda>j. (1 + of_nat j, word_of_int showNumber)) [0..<length ?pages]"
    and sub: "\<forall>sendMsgReq s2.
       getSendMsgReq example_env (BatchSendMsgReq.SendMsg ?req) ?s1 = (Inr sendMsgReq, s2) \<longrightarrow>
         \<not> isl out \<and>
         calls s' = calls s2 @ map (\<lambda>r. CallSendMsg (set_RecvID sendMsgReq r)) (concat ?pages)"
    by blast
  from sub g have out: "\<not> isl out"
    and log: "calls s' =
      calls ?s1 @ map (\<lambda>r. CallSendMsg (set_RecvID example_template r)) (concat ?pages)"
    by blast+
  from req have req': "page_requests (calls s') = [(1, 500), (2, 500)]"
    by (simp add: state_init_def page_requests_def showNumber_def)
  from log have log': "calls s' =
        [CallGetAllUserIDs 1 500, CallGetAllUserIDs 2 500] @
        map (\<lambda>r. CallSendMsg (set_RecvID example_template r))
          (replicate 500 ''u'' @ [''v'', ''w''])"
    using c by simp
  from run out req' log' have A: "\<exists>out s'.
      BatchSendMsg example_env (example_batch True []) state_init = Some (out, s') \<and>
      \<not> isl out \<and>
      page_requests (calls s') = [(1, 500), (2, 500)] \<and>
      calls s' =
        [CallGetAllUserIDs 1 500, CallGetAllUserIDs 2 500] @
        map (\<lambda>r. CallSendMsg (set_RecvID example_template r))
          (replicate 500 ''u'' @ [''v'', ''w''])"
    by (intro exI [of _ out] exI [of _ s'] conjI)
  from T [THEN conjunct2, THEN conjunct1]
  have B: "GetAllUserIDs_loop example_userClient 1 [] state_init =
     Some (Inr (replicate 500 ''u'' @ [''v'', ''w'']),
           state_init\<lparr> calls := [CallGetAllUserIDs 1 500, CallGetAllUserIDs 2 500] \<rparr>)"
    unfolding c by (simp add: example_env_parts)
  from T [THEN conjunct2, THEN conjunct2, THEN conjunct2, THEN conjunct2, THEN mp, OF n]
  have C: "sorted_wrt (<) [sint (1 :: int32), sint (2 :: int32)]"
    by simp
  have D: "length (replicate 500 ''u'' @ [''v'', ''w'']) = 502"
    by simp
  from A B D C show ?thesis
    by (intro conjI)
qed

section \<open>The package variables stay consistent\<close>

text \<open>
  The hypothesis of C3 holds in the initial state and is kept by every handler, so it holds
  whenever a diff is computed.
\<close>

lemma state_init_cached: "descriptor_cached p state_init"
  by (simp add: descriptor_cached_def state_init_def)

lemma descriptor_cached_calls:
  "descriptor_cached p (s\<lparr> calls := log \<rparr>) = descriptor_cached p s"
  by (simp add: descriptor_cached_def)

lemma ginRespSendMsg_cached:
  "descriptor_cached (proto e) s \<Longrightarrow> descriptor_cached (proto e) (snd (ginRespSendMsg e r resp s))"
  using getModifyFields_cached
    [of "proto e" s "Some (msg_SendMsgReq.MsgData r)" "msg_SendMsgResp.Modify resp"]
  by (simp add: ginRespSendMsg_def Let_def case_prod_beta)

lemma SendMsg_loop_cached:
  "descriptor_cached (proto e) s \<Longrightarrow>
   descriptor_cached (proto e) (snd (SendMsg_loop e rs req resp s))"
proof (induction rs arbitrary: req resp s)
  case Nil
  then show ?case by simp
next
  case (Cons r rs)
  let ?req = "set_RecvID req r"
  let ?s1 = "s\<lparr> calls := calls s @ [CallSendMsg ?req] \<rparr>"
  have s1: "descriptor_cached (proto e) ?s1"
    using Cons.prems by (simp add: descriptor_cached_calls)
  show ?case
  proof (cases "MsgClient.SendMsg (Client (api e)) (calls s) ?req")
    case (Inl err)
    then show ?thesis
      using Cons.IH [OF s1] by (simp add: Let_def)
  next
    case (Inr rpcResp)
    have "descriptor_cached (proto e)
        (snd (getModifyFields (proto e) (Some (msg_SendMsgReq.MsgData ?req))
           (msg_SendMsgResp.Modify rpcResp) ?s1))"
      by (rule getModifyFields_cached [OF s1])
    then show ?thesis
      using Inr Cons.IH by (simp add: Let_def case_prod_beta)
  qed
qed

lemma getSendMsgReq_cached:
  "descriptor_cached p s \<Longrightarrow> descriptor_cached p (snd (getSendMsgReq e req s))"
  by (simp add: getSendMsgReq_def Let_def decode_build_state descriptor_cached_calls
      split: option.splits)

lemma SendMessage_cached:
  assumes "descriptor_cached (proto e) s"
  shows "descriptor_cached (proto e) (snd (SendMessage e c s))"
proof (cases "BindJSON c")
  case (Inl err)
  with assms show ?thesis by (simp add: SendMessage_def)
next
  case (Inr req)
  obtain r s1 where g: "getSendMsgReq e (apistruct_SendMsgReq.SendMsg req) s = (r, s1)"
    by (cases "getSendMsgReq e (apistruct_SendMsgReq.SendMsg req) s")
  have s1: "descriptor_cached (proto e) s1"
    using getSendMsgReq_cached [OF assms, of e "apistruct_SendMsgReq.SendMsg req"] g by simp
  show ?thesis
    using Inr g assms s1
    by (simp add: SendMessage_def Let_def descriptor_cached_calls ginRespSendMsg_cached
        split: sum.splits option.splits)
qed

lemma SendBusinessNotification_cached:
  "descriptor_cached (proto e) s \<Longrightarrow>
   descriptor_cached (proto e) (snd (SendBusinessNotification e c s))"
  by (simp add: SendBusinessNotification_def Let_def descriptor_cached_calls
      ginRespSendMsg_cached split: sum.splits)

lemma submit_simple_cached:
  "descriptor_cached (proto e) s \<Longrightarrow>
   descriptor_cached (proto e) (snd (submit_simple e k req st sendID recvID s))"
  by (simp add: submit_simple_def Let_def descriptor_cached_calls ginRespSendMsg_cached
      split: sum.splits option.splits)

lemma SendSimpleMessage_cached:
  "descriptor_cached (proto e) s \<Longrightarrow>
   descriptor_cached (proto e) (snd (SendSimpleMessage e c s))"
  by (simp add: SendSimpleMessage_def submit_simple_cached
      split: sum.splits option.splits prod.splits)

lemma GetAllUserIDs_loop_cached:
  assumes "GetAllUserIDs_loop uc pageNumber recvIDs s = Some y"
  shows "descriptor_cached p s \<longrightarrow> descriptor_cached p (snd y)"
proof (rule GetAllUserIDs_loop.raw_induct
    [where P = "\<lambda>uc pageNumber recvIDs s y. descriptor_cached p s \<longrightarrow> descriptor_cached p (snd y)",
     OF _ assms])
  fix loop :: "UserClient \<Rightarrow> int32 \<Rightarrow> string list \<Rightarrow> state \<Rightarrow>
      ((error + string list) \<times> state) option"
    and uc :: UserClient and pageNumber :: int32 and recvIDs :: "string list"
    and s :: state and y :: "(error + string list) \<times> state"
  assume ih: "\<And>uc pageNumber recvIDs s y. loop uc pageNumber recvIDs s = Some y \<Longrightarrow>
      descriptor_cached p s \<longrightarrow> descriptor_cached p (snd y)"
  let ?s' = "s\<lparr> calls := calls s @ [CallGetAllUserIDs pageNumber (word_of_int showNumber)] \<rparr>"
  assume body: "(let s' = ?s'
      in case GetAllUserIDs uc (calls s) pageNumber (word_of_int showNumber) of
           Inl err \<Rightarrow> Some (Inl err, s')
         | Inr recvIDsPart \<Rightarrow>
             (let recvIDs = recvIDs @ recvIDsPart
              in if int (length recvIDsPart) < showNumber then Some (Inr recvIDs, s')
                 else loop uc (pageNumber + 1) recvIDs s')) = Some y"
  show "descriptor_cached p s \<longrightarrow> descriptor_cached p (snd y)"
  proof
    assume c: "descriptor_cached p s"
    have c': "descriptor_cached p ?s'"
      using c by (simp add: descriptor_cached_calls)
    show "descriptor_cached p (snd y)"
    proof (cases "GetAllUserIDs uc (calls s) pageNumber (word_of_int showNumber)")
      case (Inl err)
      with body c' show ?thesis by (auto simp: Let_def)
    next
      case (Inr part)
      show ?thesis
      proof (cases "int (length part) < showNumber")
        case True
        with Inr body c' show ?thesis by (auto simp: Let_def)
      next
        case False
        with Inr body have "loop uc (pageNumber + 1) (recvIDs @ part) ?s' = Some y"
          by (simp add: Let_def)
        from ih [OF this] c' show ?thesis by blast
      qed
    qed
  qed
qed

lemma BatchSendMsg_cached:
  assumes "descriptor_cached (proto e) s" and "BatchSendMsg e c s = Some y"
  shows "descriptor_cached (proto e) (snd y)"
proof (cases "BindJSON c")
  case (Inl err)
  with assms show ?thesis by (auto simp: BatchSendMsg_def)
next
  case (Inr req)
  show ?thesis
  proof (cases "CheckAdmin c")
    case (Some err)
    with Inr assms show ?thesis by (auto simp: BatchSendMsg_def)
  next
    case None
    let ?resolve = "if IsSendAll req then GetAllUserIDs_loop (userClient (api e)) 1 [] s
      else Some (Inr (RecvIDs req), s)"
    from assms(2) Inr None obtain r s1 where res: "?resolve = Some (r, s1)"
      by (cases ?resolve) (auto simp: BatchSendMsg_def)
    have s1: "descriptor_cached (proto e) s1"
      using res assms(1) GetAllUserIDs_loop_cached [of "userClient (api e)" 1 "[]" s "(r, s1)" "proto e"]
      by (auto split: if_splits)
    show ?thesis
    proof (cases r)
      case (Inl err)
      with assms(2) Inr None res s1 show ?thesis
        by (auto simp: BatchSendMsg_def)
    next
      case ids: (Inr recvIDs)
      obtain g s2 where g: "getSendMsgReq e (BatchSendMsgReq.SendMsg req) s1 = (g, s2)"
        by (cases "getSendMsgReq e (BatchSendMsgReq.SendMsg req) s1")
      have s2: "descriptor_cached (proto e) s2"
        using getSendMsgReq_cached [OF s1, of e "BatchSendMsgReq.SendMsg req"] g by simp
      from assms(2) Inr None res ids g s2 SendMsg_loop_cached [OF s2] show ?thesis
        by (cases g) (auto simp: BatchSendMsg_def Let_def case_prod_beta)
    qed
  qed
qed

end
